theory Spec2Isabelle
  imports Main
begin

section \<open>Strings and numbers of the Go runtime used by the driver\<close>

text \<open>
  Go strings are byte sequences; they are modelled as \<open>string\<close> (a list of \<open>char\<close>, one
  per byte). Integers of Go type \<open>int\<close> and \<open>int64\<close> are modelled as \<open>int\<close>: the driver
  never does arithmetic on them that could wrap, and \<open>ParseInt\<close> rejects every value
  outside the signed 64-bit range.
\<close>

text \<open>\<open>strings.FieldsFunc\<close>: the maximal runs of bytes on which \<open>f\<close> is false. The
  accumulator \<open>cur\<close> is the field being read.\<close>

fun fields_acc :: "(char \<Rightarrow> bool) \<Rightarrow> string \<Rightarrow> string \<Rightarrow> string list" where
  "fields_acc f cur [] = (if cur = [] then [] else [cur])"
| "fields_acc f cur (c # cs) =
     (if f c then (if cur = [] then fields_acc f [] cs else cur # fields_acc f [] cs)
      else fields_acc f (cur @ [c]) cs)"

definition FieldsFunc :: "string \<Rightarrow> (char \<Rightarrow> bool) \<Rightarrow> string list" where
  "FieldsFunc s f = fields_acc f [] s"

text \<open>\<open>strings.Join(parts, sep)\<close>.\<close>

fun Join :: "string list \<Rightarrow> string \<Rightarrow> string" where
  "Join [] sep = []"
| "Join [p] sep = p"
| "Join (p # q # ps) sep = p @ sep @ Join (q # ps) sep"

text \<open>\<open>strings.HasPrefix(s, prefix)\<close>.\<close>

definition HasPrefix :: "string \<Rightarrow> string \<Rightarrow> bool" where
  "HasPrefix s p = (take (length p) s = p)"

text \<open>\<open>strings.ToLower\<close> on ASCII text: the letters A to Z are mapped to a to z and every
  other byte is kept. (On text with bytes above 0x7F Go folds whole Unicode code points;
  the driver's type names are ASCII, and no statement below applies \<open>ToLower\<close> to other
  text.)\<close>

definition lower_char :: "char \<Rightarrow> char" where
  "lower_char c =
     (case map_of (zip ''ABCDEFGHIJKLMNOPQRSTUVWXYZ'' ''abcdefghijklmnopqrstuvwxyz'') c of
        Some d \<Rightarrow> d
      | None \<Rightarrow> c)"

definition ToLower :: "string \<Rightarrow> string" where
  "ToLower s = map lower_char s"

text \<open>\<open>strconv.ParseInt(s, 10, 64)\<close>: an optional sign, then one or more decimal digits;
  a syntax error or a value outside the signed 64-bit range is an error (\<open>None\<close>).\<close>

definition digit_val :: "char \<Rightarrow> nat option" where
  "digit_val c = map_of (zip ''0123456789'' [0, 1, 2, 3, 4, 5, 6, 7, 8, 9]) c"

fun parse_digits :: "nat \<Rightarrow> string \<Rightarrow> nat option" where
  "parse_digits acc [] = Some acc"
| "parse_digits acc (c # cs) =
     (case digit_val c of None \<Rightarrow> None | Some d \<Rightarrow> parse_digits (acc * 10 + d) cs)"

definition ParseUint :: "string \<Rightarrow> nat option" where
  "ParseUint s = (if s = [] then None else parse_digits 0 s)"

definition ParseInt :: "string \<Rightarrow> int option" where
  "ParseInt s =
     (case s of
        [] \<Rightarrow> None
      | c # cs \<Rightarrow>
          let neg = (c = CHR ''-'');
              ds = (if c = CHR ''+'' \<or> c = CHR ''-'' then cs else s)
          in (case ParseUint ds of
                None \<Rightarrow> None
              | Some un \<Rightarrow>
                  if \<not> neg \<and> un \<ge> 2 ^ 63 then None
                  else if neg \<and> un > 2 ^ 63 then None
                  else Some (if neg then - int un else int un)))"

text \<open>The verb \<open>%d\<close> of \<open>fmt.Sprintf\<close>: decimal digits, with a minus sign for a negative
  number.\<close>

definition digit_char :: "nat \<Rightarrow> char" where
  "digit_char d = ''0123456789'' ! d"

fun digits_of :: "nat \<Rightarrow> string" where
  "digits_of n = (if n < 10 then [digit_char n] else digits_of (n div 10) @ [digit_char (n mod 10)])"

declare digits_of.simps [simp del]

definition fmt_d :: "int \<Rightarrow> string" where
  "fmt_d n = (if n < 0 then CHR ''-'' # digits_of (nat (- n)) else digits_of (nat n))"

section \<open>The type names of the dialect (driver.go)\<close>

abbreviation TypeVarchar :: string where "TypeVarchar \<equiv> ''varchar2''"
abbreviation TypeNVarchar :: string where "TypeNVarchar \<equiv> ''nvarchar2''"
abbreviation TypeChar :: string where "TypeChar \<equiv> ''char''"
abbreviation TypeNChar :: string where "TypeNChar \<equiv> ''nchar''"
abbreviation TypeRowID :: string where "TypeRowID \<equiv> ''rowid''"
abbreviation TypeRaw :: string where "TypeRaw \<equiv> ''raw''"
abbreviation TypeFloat :: string where "TypeFloat \<equiv> ''float''"
abbreviation TypeDouble :: string where "TypeDouble \<equiv> ''double''"
abbreviation TypeInt :: string where "TypeInt \<equiv> ''int''"
abbreviation TypeNumber :: string where "TypeNumber \<equiv> ''number''"
abbreviation TypeDate :: string where "TypeDate \<equiv> ''date''"
abbreviation TypeTimestamp :: string where "TypeTimestamp \<equiv> ''timestamp''"
abbreviation TypeTimestampTZ :: string where "TypeTimestampTZ \<equiv> ''timestamp with time zone''"
abbreviation TypeTimestampLTZ :: string where
  "TypeTimestampLTZ \<equiv> ''timestamp with local time zone''"
abbreviation TypeIntervalDS :: string where "TypeIntervalDS \<equiv> ''interval day second''"
abbreviation TypeIntervalYM :: string where "TypeIntervalYM \<equiv> ''interval year month''"
abbreviation TypeJSON :: string where "TypeJSON \<equiv> ''json''"

section \<open>Canonical column types\<close>

text \<open>
  The variants of \<open>schema.Type\<close> that the driver constructs or matches on, each with the
  fields the driver reads or sets: the type name \<open>T\<close>, then \<open>Size\<close>, or \<open>Precision\<close>, or
  \<open>Precision\<close> and \<open>Scale\<close>. The first eight belong to package \<open>schema\<close>, the others are
  declared by the driver itself (or, for \<open>BoolType\<close>, \<open>SpatialType\<close> and \<open>EnumType\<close>, only
  matched on). \<open>NilType\<close> is the nil interface value.
\<close>

datatype schema_type =
    BinaryType string int
  | IntegerType string
  | StringType string int
  | TimeType string
  | FloatType string int
  | DecimalType string int int
  | JSONType string
  | UnsupportedType string
  | BoolType string
  | SpatialType string
  | EnumType string
  | UserDefinedType string
  | ArrayType string
  | BitType string int
  | NetworkType string int
  | CurrencyType string
  | SerialType string int
  | UUIDType string
  | XMLType string
  | NilType

text \<open>The errors of the type layer, one constructor per \<open>fmt.Errorf\<close> of convert.go, and
  \<open>Panic\<close> for a run-time panic (an index or a slice bound out of range).\<close>

datatype type_error =
    Panic
  | ErrDecimalScale int
  | ErrDecimalPrecision int
  | ErrUnsupportedType string
  | ErrInvalidSchemaType
  | ErrParseSize string
  | ErrParsePrecision string
  | ErrParseScale string

subsection \<open>FormatType\<close>

fun FormatType :: "schema_type \<Rightarrow> type_error + string" where
  "FormatType (BinaryType t sz) =
     Inr (if sz < 2 then ''raw(1)''
          else if sz > 4000 then ''blob''
          else TypeRaw @ ''('' @ fmt_d sz @ '')'')"
| "FormatType (IntegerType t) = Inr TypeInt"
| "FormatType (StringType t sz) =
     Inr (if sz < 2 then ''char(1)''
          else if sz > 4000 then ''clob''
          else TypeVarchar @ ''('' @ fmt_d sz @ '')'')"
| "FormatType (TimeType t) =
     Inr (let f = ToLower t in
          if f = TypeTimestampLTZ then TypeTimestampLTZ
          else if f = TypeTimestampTZ then TypeTimestampTZ
          else if f = TypeTimestamp then TypeTimestamp
          else if f = TypeDate then TypeDate
          else f)"
| "FormatType (FloatType t p) =
     Inr (let f = ToLower t in
          if f = TypeFloat then TypeFloat
          else if f = TypeDouble then TypeDouble
          else f)"
| "FormatType (DecimalType t p s) =
     (if p = 0 \<and> s = 0 then Inr TypeNumber
      else if s < 0 then Inl (ErrDecimalScale s)
      else if p = 0 \<and> s > 0 then Inl (ErrDecimalPrecision p)
      else if s = 0 then Inr (TypeNumber @ ''('' @ fmt_d p @ '')'')
      else Inr (TypeNumber @ ''('' @ fmt_d p @ '','' @ fmt_d s @ '')''))"
| "FormatType (JSONType t) = Inr (ToLower t)"
| "FormatType (UnsupportedType t) = Inl (ErrUnsupportedType t)"
| "FormatType _ = Inl ErrInvalidSchemaType"

subsection \<open>ParseType\<close>

record columnDesc =
  typ_d :: string
  size_d :: int
  udt :: string
  precision :: int
  scale :: int
  typtype :: string
  typid :: int
  parts :: "string list"

definition is_sep :: "char \<Rightarrow> bool" where
  "is_sep r = (r = CHR ''('' \<or> r = CHR '')'' \<or> r = CHR '' '' \<or> r = CHR '','')"

text \<open>
  \<open>parseCharParts\<close>. The slice expressions \<open>parts[1:]\<close> and \<open>parts[2:]\<close> panic when
  \<open>parts\<close> is shorter than the lower bound; the error message of a failed \<open>ParseInt\<close>
  reads \<open>parts[1]\<close> of the shortened slice and panics when that has one element only.
\<close>

definition slice_from :: "nat \<Rightarrow> 'a list \<Rightarrow> type_error + 'a list" where
  "slice_from n xs = (if n \<le> length xs then Inr (drop n xs) else Inl Panic)"

definition parseCharParts :: "string list \<Rightarrow> columnDesc \<Rightarrow> type_error + columnDesc" where
  "parseCharParts ps c =
     (let j = Join ps '' '';
          (c1, sl) =
            (if HasPrefix j TypeVarchar then (c\<lparr>typ_d := TypeVarchar\<rparr>, slice_from 1 ps)
             else if HasPrefix j TypeNVarchar then (c\<lparr>typ_d := TypeVarchar\<rparr>, slice_from 1 ps)
             else if HasPrefix j TypeChar then (c\<lparr>typ_d := TypeChar\<rparr>, slice_from 2 ps)
             else if HasPrefix j TypeNChar then (c\<lparr>typ_d := TypeNChar\<rparr>, slice_from 2 ps)
             else (c, slice_from 1 ps))
      in case sl of
           Inl e \<Rightarrow> Inl e
         | Inr [] \<Rightarrow> Inr c1
         | Inr (p # rest) \<Rightarrow>
             (case ParseInt p of
                None \<Rightarrow> (case rest of [] \<Rightarrow> Inl Panic | q # _ \<Rightarrow> Inl (ErrParseSize q))
              | Some n \<Rightarrow> Inr (c1\<lparr>size_d := n\<rparr>)))"

definition parseColumn :: "string \<Rightarrow> type_error + columnDesc" where
  "parseColumn s =
     (let ps = FieldsFunc s is_sep in
      case ps of
        [] \<Rightarrow> Inl Panic
      | p0 # _ \<Rightarrow>
          let c = \<lparr>typ_d = p0, size_d = 0, udt = [], precision = 0, scale = 0,
                   typtype = [], typid = 0, parts = ps\<rparr>
          in if p0 = TypeVarchar \<or> p0 = TypeNVarchar \<or> p0 = TypeChar \<or> p0 = TypeNChar
             then parseCharParts ps c
             else if p0 = TypeNumber then
               (case (if length ps > 1 then map_option Some (ParseInt (ps ! 1)) else Some None) of
                  None \<Rightarrow> Inl (ErrParsePrecision (ps ! 1))
                | Some pr \<Rightarrow>
                    let c1 = (case pr of None \<Rightarrow> c | Some p \<Rightarrow> c\<lparr>precision := p\<rparr>) in
                    (case (if length ps > 2 then map_option Some (ParseInt (ps ! 2)) else Some None) of
                       None \<Rightarrow> Inl (ErrParseScale (ps ! 1))
                     | Some sc \<Rightarrow>
                         Inr (case sc of None \<Rightarrow> c1 | Some s \<Rightarrow> c1\<lparr>scale := s\<rparr>)))
             else if p0 = TypeDouble then Inr (c\<lparr>precision := 53\<rparr>)
             else if p0 = TypeInt then Inr (c\<lparr>precision := 32\<rparr>)
             else if p0 = TypeFloat then Inr (c\<lparr>precision := 24\<rparr>)
             else Inr (c\<lparr>typ_d := s\<rparr>))"

text \<open>\<open>columnType\<close> (the canonical mapping): a dispatch on the lower-cased type name; the
  variant keeps the name as it was given.\<close>

definition columnType :: "columnDesc \<Rightarrow> schema_type" where
  "columnType c =
     (let t = typ_d c; l = ToLower t in
      if l = TypeInt then IntegerType t
      else if l = TypeRaw then BinaryType t 0
      else if l = TypeChar \<or> l = TypeNChar \<or> l = TypeVarchar \<or> l = TypeNVarchar
        then StringType t (size_d c)
      else if l = TypeDate \<or> l = TypeTimestamp \<or> l = TypeTimestampTZ \<or> l = TypeTimestampLTZ
        then TimeType t
      else if l = TypeIntervalDS \<or> l = TypeIntervalYM then UnsupportedType t
      else if l = TypeDouble \<or> l = TypeFloat then FloatType t (precision c)
      else if l = TypeJSON then JSONType t
      else if l = TypeNumber then DecimalType t (precision c) (scale c)
      else UnsupportedType t)"

definition ParseType :: "string \<Rightarrow> type_error + schema_type" where
  "ParseType s =
     (case parseColumn s of
        Inl e \<Rightarrow> Inl e
      | Inr d \<Rightarrow>
          (case columnType d of
             UnsupportedType t \<Rightarrow> Inr (UserDefinedType t)
           | t \<Rightarrow> Inr t))"

text \<open>The variants that \<open>FormatType\<close> has a spelling for, and the variants of the data
  model (the former together with \<open>UnsupportedType\<close> and \<open>UserDefinedType\<close>).\<close>

fun formattable :: "schema_type \<Rightarrow> bool" where
  "formattable (BinaryType t n) = True"
| "formattable (IntegerType t) = True"
| "formattable (StringType t n) = True"
| "formattable (TimeType t) = True"
| "formattable (FloatType t p) = True"
| "formattable (DecimalType t p s) = True"
| "formattable (JSONType t) = True"
| "formattable _ = False"

fun canonical_variant :: "schema_type \<Rightarrow> bool" where
  "canonical_variant (UnsupportedType t) = True"
| "canonical_variant (UserDefinedType t) = True"
| "canonical_variant ty = formattable ty"

text \<open>The \<open>Precision\<close> facet of a canonical type, for the variants that have one.\<close>

fun type_precision :: "schema_type \<Rightarrow> int option" where
  "type_precision (FloatType t p) = Some p"
| "type_precision (DecimalType t p s) = Some p"
| "type_precision (SerialType t p) = Some p"
| "type_precision _ = None"

text \<open>\<open>FormatType\<close> applied to the result of \<open>ParseType\<close>; an error of either is the
  result.\<close>

definition Format_Parse :: "string \<Rightarrow> type_error + string" where
  "Format_Parse x = (case ParseType x of Inl e \<Rightarrow> Inl e | Inr t \<Rightarrow> FormatType t)"

section \<open>Opening a connection (driver.go)\<close>

text \<open>
  The errors of the driver and of the inspector. \<open>DriverError\<close> is an error returned by the
  query executor and \<open>ScanError\<close> one returned by \<open>rows.Scan\<close>; \<open>Wrap m e\<close> is
  \<open>fmt.Errorf(m + ": %w", e)\<close>; \<open>NotExistError\<close> is \<open>schema.NotExistError\<close>; \<open>RuntimePanic\<close>
  is a run-time panic; the others are the errors made with \<open>fmt.Errorf\<close> at the place
  their name tells.
\<close>

datatype error =
    RuntimePanic
  | DriverError string
  | ScanError
  | ErrNoRows
  | NotExistError string
  | Wrap string error
  | ErrUnexpectedRows nat
  | ErrMalformedVersion string
  | ErrUnsupportedVersion string
  | ErrIndexColumnNotFound string string
  | ErrInvalidIndexPart string
  | ErrCheckColumnNotFound string string

subsection \<open>Semantic versions (golang.org/x/mod/semver)\<close>

definition is_digit :: "char \<Rightarrow> bool" where
  "is_digit c = (c \<in> set ''0123456789'')"

definition isIdentChar :: "char \<Rightarrow> bool" where
  "isIdentChar c =
     (c \<in> set ''ABCDEFGHIJKLMNOPQRSTUVWXYZabcdefghijklmnopqrstuvwxyz0123456789-'')"

text \<open>\<open>parseInt\<close>: the leading run of digits, which must not be empty and must not have
  a leading zero unless it is the single digit 0; returns the run and the rest.\<close>

definition semver_parseInt :: "string \<Rightarrow> (string \<times> string) option" where
  "semver_parseInt v =
     (case v of
        [] \<Rightarrow> None
      | c # cs \<Rightarrow>
          if \<not> is_digit c then None
          else let i = 1 + length (takeWhile is_digit cs) in
               if c = CHR ''0'' \<and> i \<noteq> 1 then None
               else Some (take i v, drop i v))"

text \<open>\<open>isBadNum\<close>: all digits, longer than one, and starting with 0.\<close>

definition isBadNum :: "string \<Rightarrow> bool" where
  "isBadNum v = (list_all is_digit v \<and> length v > 1 \<and> hd v = CHR ''0'')"

text \<open>The loops of \<open>parsePrerelease\<close> and \<open>parseBuild\<close> over the text after the leading
  \<open>-\<close> or \<open>+\<close>: \<open>cur\<close> is the identifier being read (\<open>v[start:i]\<close>), \<open>done\<close> the text
  consumed before it. A prerelease stops at a \<open>+\<close>.\<close>

fun prerelease_loop :: "string \<Rightarrow> string \<Rightarrow> string \<Rightarrow> (string \<times> string) option" where
  "prerelease_loop done cur [] =
     (if cur = [] \<or> isBadNum cur then None else Some (done @ cur, []))"
| "prerelease_loop done cur (c # cs) =
     (if c = CHR ''+'' then
        (if cur = [] \<or> isBadNum cur then None else Some (done @ cur, c # cs))
      else if \<not> isIdentChar c \<and> c \<noteq> CHR ''.'' then None
      else if c = CHR ''.'' then
        (if cur = [] \<or> isBadNum cur then None else prerelease_loop (done @ cur @ [c]) [] cs)
      else prerelease_loop done (cur @ [c]) cs)"

definition parsePrerelease :: "string \<Rightarrow> (string \<times> string) option" where
  "parsePrerelease v =
     (case v of
        [] \<Rightarrow> None
      | c # cs \<Rightarrow> if c \<noteq> CHR ''-'' then None else prerelease_loop [c] [] cs)"

fun build_loop :: "string \<Rightarrow> string \<Rightarrow> string \<Rightarrow> (string \<times> string) option" where
  "build_loop done cur [] = (if cur = [] then None else Some (done @ cur, []))"
| "build_loop done cur (c # cs) =
     (if \<not> isIdentChar c \<and> c \<noteq> CHR ''.'' then None
      else if c = CHR ''.'' then
        (if cur = [] then None else build_loop (done @ cur @ [c]) [] cs)
      else build_loop done (cur @ [c]) cs)"

definition parseBuild :: "string \<Rightarrow> (string \<times> string) option" where
  "parseBuild v =
     (case v of
        [] \<Rightarrow> None
      | c # cs \<Rightarrow> if c \<noteq> CHR ''+'' then None else build_loop [c] [] cs)"

record parsed =
  major :: string
  minor :: string
  patch :: string
  prerelease :: string
  build :: string

text \<open>\<open>parse\<close>: \<open>None\<close> is \<open>ok = false\<close>, an invalid version.\<close>

definition semver_parse :: "string \<Rightarrow> parsed option" where
  "semver_parse v =
     (case v of
        [] \<Rightarrow> None
      | c # v1 \<Rightarrow>
          if c \<noteq> CHR ''v'' then None
          else
            (case semver_parseInt v1 of
               None \<Rightarrow> None
             | Some (ma, v2) \<Rightarrow>
                 let p = \<lparr>major = ma, minor = ''0'', patch = ''0'', prerelease = [], build = []\<rparr> in
                 if v2 = [] then Some p
                 else if hd v2 \<noteq> CHR ''.'' then None
                 else
                   (case semver_parseInt (tl v2) of
                      None \<Rightarrow> None
                    | Some (mi, v3) \<Rightarrow>
                        if v3 = [] then Some (p\<lparr>minor := mi\<rparr>)
                        else if hd v3 \<noteq> CHR ''.'' then None
                        else
                          (case semver_parseInt (tl v3) of
                             None \<Rightarrow> None
                           | Some (pa, v4) \<Rightarrow>
                               let p1 = p\<lparr>minor := mi, patch := pa\<rparr> in
                               (case (if v4 \<noteq> [] \<and> hd v4 = CHR ''-''
                                      then parsePrerelease v4 else Some ([], v4)) of
                                  None \<Rightarrow> None
                                | Some (pre, v5) \<Rightarrow>
                                    (case (if v5 \<noteq> [] \<and> hd v5 = CHR ''+''
                                           then parseBuild v5 else Some ([], v5)) of
                                       None \<Rightarrow> None
                                     | Some (bu, v6) \<Rightarrow>
                                         if v6 \<noteq> [] then None
                                         else Some (p1\<lparr>prerelease := pre, build := bu\<rparr>)))))))"

text \<open>The order of Go strings: lexicographic on the bytes.\<close>

fun string_less :: "string \<Rightarrow> string \<Rightarrow> bool" where
  "string_less [] [] = False"
| "string_less [] (y # ys) = True"
| "string_less (x # xs) [] = False"
| "string_less (x # xs) (y # ys) =
     ((of_char x :: nat) < of_char y \<or> (x = y \<and> string_less xs ys))"

definition compareInt :: "string \<Rightarrow> string \<Rightarrow> int" where
  "compareInt x y =
     (if x = y then 0
      else if length x < length y then - 1
      else if length x > length y then 1
      else if string_less x y then - 1 else 1)"

text \<open>
  \<open>semver.Compare(v, "v10.0.0")\<close>. An invalid version is less than a valid one. The second
  argument is valid, with major 10, minor 0, patch 0 and no prerelease; against an empty
  prerelease, \<open>comparePrerelease x ""\<close> is 0 when \<open>x\<close> is empty and -1 otherwise.
\<close>

definition Compare_v10 :: "string \<Rightarrow> int" where
  "Compare_v10 v =
     (case semver_parse v of
        None \<Rightarrow> - 1
      | Some pv \<Rightarrow>
          if compareInt (major pv) ''10'' \<noteq> 0 then compareInt (major pv) ''10''
          else if compareInt (minor pv) ''0'' \<noteq> 0 then compareInt (minor pv) ''0''
          else if compareInt (patch pv) ''0'' \<noteq> 0 then compareInt (patch pv) ''0''
          else if prerelease pv = [] then 0 else - 1)"

subsection \<open>Open\<close>

record conn =
  collate :: string
  ctype :: string
  version :: string

text \<open>
  \<open>Open\<close>. The argument is what the parameters query gives: \<open>Inl e\<close> when \<open>QueryContext\<close>
  fails, \<open>Inr (Inl e)\<close> when \<open>sqlx.ScanStrings\<close> fails, \<open>Inr (Inr params)\<close> for the values
  scanned. The driver returned embeds the connection record, which is the result here.
\<close>

definition Open :: "error + (error + string list) \<Rightarrow> error + conn" where
  "Open q =
     (case q of
        Inl e \<Rightarrow> Inl (Wrap ''oracle: scanning system variables'' e)
      | Inr (Inl e) \<Rightarrow> Inl (Wrap ''oracle: failed scanning rows'' e)
      | Inr (Inr params) \<Rightarrow>
          if length params \<noteq> 3 then Inl (ErrUnexpectedRows (length params))
          else
            let v = params ! 2 in
            if length v \<noteq> 6 then Inl (ErrMalformedVersion v)
            else
              let ver = take 2 v @ ''.'' @ take 2 (drop 2 v) @ ''.'' @ drop 4 v in
              if Compare_v10 (''v'' @ ver) \<noteq> - 1 then Inl (ErrUnsupportedVersion ver)
              else Inr \<lparr>collate = params ! 0, ctype = params ! 1, version = ver\<rparr>)"

text \<open>A version component of two digits without a leading zero (10 to 99).\<close>

definition two_digits :: "string \<Rightarrow> bool" where
  "two_digits s = (length s = 2 \<and> is_digit (s ! 0) \<and> s ! 0 \<noteq> CHR ''0'' \<and> is_digit (s ! 1))"

section \<open>The schema model built by the inspector\<close>

text \<open>
  The entities of package \<open>schema\<close> with the fields the inspector sets. Field names carry a
  prefix (\<open>c_\<close> column, \<open>t_\<close> table, \<open>i_\<close> index, \<open>p_\<close> index part, \<open>s_\<close> schema, \<open>r_\<close>
  realm), since a record field is a constant of its own.

  Pointers are positions: a \<open>*schema.Column\<close> is the position of the column in the
  \<open>Columns\<close> of its table, a \<open>*schema.Check\<close> the position of the check in the \<open>Attrs\<close> of
  its table (both slices only grow), and a \<open>*schema.Index\<close> the position of the index in
  \<open>idx_store\<close>, the store of the index objects allocated for the table. \<open>t_Indexes\<close>,
  \<open>t_PrimaryKey\<close> and the back-references \<open>c_Indexes\<close> hold such positions, so that an
  index reached from several places is one object. A back-reference to a schema is the
  schema's name.
\<close>

datatype expr = Literal string | RawExpr string

datatype attr =
    Comment string
  | Charset string
  | Collation string
  | CType string
  | Identity string int int
  | IndexType string
  | ConType string
  | IndexPredicate string
  | IndexColumnProperty bool bool bool bool
  | NoInherit
  | CheckColumns "string list"
  | Check string string "attr list"

record column_type =
  ct_Type :: schema_type
  ct_Raw :: string
  ct_Null :: bool

record column =
  c_Name :: string
  c_Type :: column_type
  c_Default :: "expr option"
  c_Attrs :: "attr list"
  c_Indexes :: "nat list"

record index_part =
  p_SeqNo :: int
  p_C :: "nat option"
  p_X :: "expr option"
  p_Attrs :: "attr list"

record index =
  i_Name :: string
  i_Unique :: bool
  i_Attrs :: "attr list"
  i_Parts :: "index_part list"

record foreign_key =
  fk_Symbol :: string
  fk_Columns :: "string list"
  fk_RefTable :: string
  fk_RefColumns :: "string list"
  fk_OnUpdate :: string
  fk_OnDelete :: string

record table =
  t_Name :: string
  t_Schema :: string
  t_Columns :: "column list"
  t_Indexes :: "nat list"
  t_PrimaryKey :: "nat option"
  t_ForeignKeys :: "foreign_key list"
  t_Attrs :: "attr list"
  idx_store :: "index list"

record realm_ref =
  r_Schemas :: "string list"
  r_Attrs :: "attr list"

record schema =
  s_Name :: string
  s_Tables :: "table list"
  s_Realm :: "realm_ref option"


section \<open>The query executor and the helpers of package sqlx\<close>

text \<open>
  The rows a query returns: the rows that \<open>rows.Next\<close> delivers, in order, each either
  scanned (\<open>Some\<close>) or making \<open>rows.Scan\<close> fail (\<open>None\<close>); the error \<open>rows.Err()\<close> reports
  after the last of them; and the error of \<open>rows.Close()\<close>.
\<close>

record 'r rows =
  rows_items :: "'r option list"
  rows_err :: "error option"
  rows_close :: "error option"

text \<open>The rows of the catalog queries, a field for each scanned variable; a nullable
  variable (\<open>sql.NullString\<close>, \<open>sql.NullInt64\<close>, \<open>sql.NullBool\<close>) is an option.\<close>

record column_row =
  cr_name :: "string option"
  cr_typ :: "string option"
  cr_nullable :: "string option"
  cr_defaults :: "string option"
  cr_maxlen :: "int option"
  cr_precision :: "int option"
  cr_scale :: "int option"
  cr_charset :: "string option"
  cr_collation :: "string option"
  cr_udt :: "string option"
  cr_identity :: "string option"
  cr_seqstart :: "int option"
  cr_seqinc :: "int option"
  cr_generation :: "string option"
  cr_comment :: "string option"
  cr_typtype :: "string option"
  cr_typid :: "int option"

record index_row =
  ir_name :: string
  ir_typ :: string
  ir_column :: "string option"
  ir_primary :: bool
  ir_uniq :: bool
  ir_contype :: "string option"
  ir_pred :: "string option"
  ir_expr :: "string option"
  ir_asc :: "bool option"
  ir_desc :: "bool option"
  ir_nullsfirst :: "bool option"
  ir_nullslast :: "bool option"
  ir_comment :: "string option"

record check_row =
  kr_name :: string
  kr_clause :: string
  kr_column :: string
  kr_indexes :: string
  kr_noInherit :: bool

text \<open>The value of a nullable variable: the zero value when it is null.\<close>

definition String_of :: "string option \<Rightarrow> string" where
  "String_of s = (case s of None \<Rightarrow> [] | Some v \<Rightarrow> v)"

definition Int64_of :: "int option \<Rightarrow> int" where
  "Int64_of n = (case n of None \<Rightarrow> 0 | Some v \<Rightarrow> v)"

definition Bool_of :: "bool option \<Rightarrow> bool" where
  "Bool_of b = (case b of None \<Rightarrow> False | Some v \<Rightarrow> v)"

text \<open>
  The functions of package \<open>sqlx\<close> that the inspector calls and whose bodies are not among
  the sources are parameters of the model: the literal tests of the default classifier
  (\<open>IsQuoted\<close> is the test with the single quote), \<open>ValidString\<close>, the foreign-key scanner
  and the linker. Every statement below holds for whatever they compute.
\<close>

record helpers =
  IsLiteralBool :: "string \<Rightarrow> bool"
  IsLiteralNumber :: "string \<Rightarrow> bool"
  IsQuoted :: "string \<Rightarrow> bool"
  ValidString :: "string option \<Rightarrow> bool"
  ScanFKs :: "table \<Rightarrow> string list rows \<Rightarrow> error + table"
  LinkSchemaTables :: "schema list \<Rightarrow> schema list"

text \<open>
  The inspector: the connection record, the answers of the query executor to the queries
  the inspector issues (\<open>Inl\<close> when \<open>QueryContext\<close> fails), and the helpers.
  \<open>q_schemas names\<close> answers the schemas query restricted to \<open>names\<close> (all schemas for
  \<open>[]\<close>); \<open>q_tables s names\<close> the table-names query of schema \<open>s\<close>, restricted to \<open>names\<close>
  unless empty; \<open>q_table name sch\<close> the identity query of a table, in the attached schema
  (\<open>None\<close>) or in the schema given; the others take the schema and the table name.
\<close>

record inspect =
  i_conn :: conn
  q_attached :: "error + string rows"
  q_schemas :: "string list \<Rightarrow> error + string rows"
  q_tables :: "string \<Rightarrow> string list \<Rightarrow> error + string rows"
  q_table :: "string \<Rightarrow> string option \<Rightarrow> error + (string option \<times> string option) rows"
  q_columns :: "string \<Rightarrow> string \<Rightarrow> error + column_row rows"
  q_indexes :: "string \<Rightarrow> string \<Rightarrow> error + index_row rows"
  q_fks :: "string \<Rightarrow> string \<Rightarrow> error + string list rows"
  q_checks :: "string \<Rightarrow> string \<Rightarrow> error + check_row rows"
  i_sqlx :: helpers

text \<open>Modelled from the spec: \<open>sqlx.ScanOne\<close>, whose body is not among the sources. It
  scans the first row; a result without rows is \<open>sql.ErrNoRows\<close> (the identity query of a
  table "returning NotExistError if zero rows").\<close>

definition ScanOne :: "'r rows \<Rightarrow> error + 'r" where
  "ScanOne rs =
     (case rows_items rs of
        [] \<Rightarrow> Inl ErrNoRows
      | None # _ \<Rightarrow> Inl ScanError
      | Some r # _ \<Rightarrow> (case rows_close rs of Some e \<Rightarrow> Inl e | None \<Rightarrow> Inr r))"

text \<open>Modelled from the spec: \<open>sqlx.ScanStrings\<close>, whose body is not among the sources. It
  scans every row into a string, in the order of the result.\<close>

fun scan_all :: "'r option list \<Rightarrow> error + 'r list" where
  "scan_all [] = Inr []"
| "scan_all (None # rs) = Inl ScanError"
| "scan_all (Some r # rs) = (case scan_all rs of Inl e \<Rightarrow> Inl e | Inr vs \<Rightarrow> Inr (r # vs))"

definition ScanStrings :: "string rows \<Rightarrow> error + string list" where
  "ScanStrings rs = scan_all (rows_items rs)"

text \<open>Modelled from the spec: the method \<open>Column\<close> of \<open>schema.Table\<close>, whose body is not
  among the sources. It resolves a column by name within the table: the first column of
  that name, if there is one.\<close>

fun find_column :: "column list \<Rightarrow> string \<Rightarrow> nat option" where
  "find_column [] n = None"
| "find_column (c # cs) n =
     (if c_Name c = n then Some 0 else map_option Suc (find_column cs n))"

definition Column :: "table \<Rightarrow> string \<Rightarrow> nat option" where
  "Column t n = find_column (t_Columns t) n"

section \<open>The default expression classifier\<close>

text \<open>\<open>strings.Index(s, sub)\<close>: the position of the first occurrence of \<open>sub\<close> in \<open>s\<close>;
  \<open>None\<close> is the result -1.\<close>

fun Index :: "string \<Rightarrow> string \<Rightarrow> nat option" where
  "Index [] sub = (if sub = [] then Some 0 else None)"
| "Index (c # cs) sub =
     (if HasPrefix (c # cs) sub then Some 0 else map_option Suc (Index cs sub))"

text \<open>
  \<open>canConvert\<close>. \<open>None\<close> is the result \<open>("", false)\<close>. The slice \<open>x[1 : i-1]\<close> panics when
  \<open>i < 2\<close>, which needs an \<open>IsQuoted\<close> that accepts a text of fewer than two bytes.
\<close>

definition raw_name :: "column_type \<Rightarrow> string" where
  "raw_name t = (case ct_Type t of ArrayType a \<Rightarrow> a | _ \<Rightarrow> ct_Raw t)"

definition canConvert :: "helpers \<Rightarrow> column_type \<Rightarrow> string \<Rightarrow> error + string option" where
  "canConvert h t x =
     (let r = raw_name t in
      case Index x (''::'' @ r) of
        None \<Rightarrow> Inr None
      | Some i \<Rightarrow>
          if \<not> IsQuoted h (take i x) then Inr None
          else if i < 2 then Inl RuntimePanic
          else
            let q = take i x;
                y = take (i - 2) (drop 1 x)
            in Inr (case ct_Type t of
                      BoolType _ \<Rightarrow> if IsLiteralBool h y then Some y else None
                    | DecimalType _ _ _ \<Rightarrow> if IsLiteralNumber h y then Some y else None
                    | IntegerType _ \<Rightarrow> if IsLiteralNumber h y then Some y else None
                    | FloatType _ _ \<Rightarrow> if IsLiteralNumber h y then Some y else None
                    | ArrayType _ \<Rightarrow> Some q
                    | BinaryType _ _ \<Rightarrow> Some q
                    | JSONType _ \<Rightarrow> Some q
                    | NetworkType _ _ \<Rightarrow> Some q
                    | SpatialType _ \<Rightarrow> Some q
                    | StringType _ _ \<Rightarrow> Some q
                    | TimeType _ \<Rightarrow> Some q
                    | UUIDType _ \<Rightarrow> Some q
                    | XMLType _ \<Rightarrow> Some q
                    | _ \<Rightarrow> None))"

definition defaultExpr :: "helpers \<Rightarrow> column \<Rightarrow> string \<Rightarrow> error + expr" where
  "defaultExpr h c x =
     (if IsLiteralBool h x \<or> IsLiteralNumber h x \<or> IsQuoted h x then Inr (Literal x)
      else
        (case canConvert h (c_Type c) x of
           Inl e \<Rightarrow> Inl e
         | Inr (Some v) \<Rightarrow> Inr (Literal v)
         | Inr None \<Rightarrow> Inr (RawExpr x)))"

text \<open>The variants for which \<open>canConvert\<close> asks for a numeric inner text, and those for
  which it accepts every inner text.\<close>

fun numeric_variant :: "schema_type \<Rightarrow> bool" where
  "numeric_variant (DecimalType t p s) = True"
| "numeric_variant (IntegerType t) = True"
| "numeric_variant (FloatType t p) = True"
| "numeric_variant _ = False"

fun boolean_variant :: "schema_type \<Rightarrow> bool" where
  "boolean_variant (BoolType t) = True"
| "boolean_variant _ = False"

fun quoted_variant :: "schema_type \<Rightarrow> bool" where
  "quoted_variant (ArrayType t) = True"
| "quoted_variant (BinaryType t n) = True"
| "quoted_variant (JSONType t) = True"
| "quoted_variant (NetworkType t n) = True"
| "quoted_variant (SpatialType t) = True"
| "quoted_variant (StringType t n) = True"
| "quoted_variant (TimeType t) = True"
| "quoted_variant (UUIDType t) = True"
| "quoted_variant (XMLType t) = True"
| "quoted_variant _ = False"

text \<open>
  Modelled from the spec: an instance of the helpers, for evaluating the model on
  concrete inputs. The bodies are not among the sources; the literal tests follow the
  words of the specification and the Go library functions they stand for: a boolean
  literal is a text \<open>strconv.ParseBool\<close> accepts; a numeric literal is here an optionally
  signed decimal numeral with an optional fraction (the library test accepts more
  forms, none of which starts with a quote or contains a parenthesis); a quoted text has
  at least two bytes, starts and ends with the single quote and has none in between; a
  valid string is not null, not empty and not the word null. No foreign keys are scanned
  and the linker sets the schema name of each table.
\<close>

definition std_IsLiteralBool :: "string \<Rightarrow> bool" where
  "std_IsLiteralBool s =
     (s \<in> set [''1'', ''t'', ''T'', ''TRUE'', ''true'', ''True'',
               ''0'', ''f'', ''F'', ''FALSE'', ''false'', ''False''])"

definition std_IsLiteralNumber :: "string \<Rightarrow> bool" where
  "std_IsLiteralNumber s =
     (let u = (case s of c # cs \<Rightarrow> if c = CHR ''+'' \<or> c = CHR ''-'' then cs else s | [] \<Rightarrow> s);
          ip = takeWhile is_digit u;
          r = dropWhile is_digit u
      in case r of
           [] \<Rightarrow> ip \<noteq> []
         | c # fp \<Rightarrow> c = CHR ''.'' \<and> list_all is_digit fp \<and> (ip \<noteq> [] \<or> fp \<noteq> []))"

definition std_IsQuoted :: "string \<Rightarrow> bool" where
  "std_IsQuoted s =
     (length s \<ge> 2 \<and> hd s = CHR 0x27 \<and> last s = CHR 0x27 \<and>
      CHR 0x27 \<notin> set (butlast (tl s)))"

definition std_ValidString :: "string option \<Rightarrow> bool" where
  "std_ValidString s =
     (case s of None \<Rightarrow> False | Some v \<Rightarrow> v \<noteq> [] \<and> ToLower v \<noteq> ''null'')"

definition std_helpers :: helpers where
  "std_helpers =
     \<lparr>IsLiteralBool = std_IsLiteralBool, IsLiteralNumber = std_IsLiteralNumber,
      IsQuoted = std_IsQuoted, ValidString = std_ValidString,
      ScanFKs = (\<lambda>t rs. Inr t),
      LinkSchemaTables = map (\<lambda>s. s\<lparr>s_Tables := map (\<lambda>t. t\<lparr>t_Schema := s_Name s\<rparr>) (s_Tables s)\<rparr>)\<rparr>"

section \<open>The inspector\<close>

subsection \<open>Columns\<close>

text \<open>\<open>addColumn\<close>: the row scanned (\<open>None\<close> when \<open>rows.Scan\<close> fails) becomes a column,
  appended to the table.\<close>

definition addColumn :: "helpers \<Rightarrow> table \<Rightarrow> column_row option \<Rightarrow> error + table" where
  "addColumn h t row =
     (case row of
        None \<Rightarrow> Inl ScanError
      | Some r \<Rightarrow>
          let c = \<lparr>c_Name = String_of (cr_name r),
                   c_Type = \<lparr>ct_Type = columnType
                               \<lparr>typ_d = String_of (cr_typ r), size_d = Int64_of (cr_maxlen r),
                                udt = String_of (cr_udt r),
                                precision = Int64_of (cr_precision r),
                                scale = Int64_of (cr_scale r),
                                typtype = String_of (cr_typtype r),
                                typid = Int64_of (cr_typid r), parts = []\<rparr>,
                             ct_Raw = String_of (cr_typ r),
                             ct_Null = (String_of (cr_nullable r) = ''YES'')\<rparr>,
                   c_Default = None, c_Attrs = [], c_Indexes = []\<rparr>
          in (case (if ValidString h (cr_defaults r)
                    then map_sum id Some (defaultExpr h c (String_of (cr_defaults r)))
                    else Inr None) of
                Inl e \<Rightarrow> Inl e
              | Inr d \<Rightarrow>
                  let a1 = (if String_of (cr_identity r) = ''YES''
                            then [Identity (String_of (cr_generation r))
                                    (Int64_of (cr_seqstart r)) (Int64_of (cr_seqinc r))]
                            else []);
                      a2 = (if ValidString h (cr_comment r)
                            then [Comment (String_of (cr_comment r))] else []);
                      a3 = (if ValidString h (cr_charset r)
                            then [Charset (String_of (cr_charset r))] else []);
                      a4 = (if ValidString h (cr_collation r)
                            then [Collation (String_of (cr_collation r))] else [])
                  in Inr (t\<lparr>t_Columns :=
                            t_Columns t @ [c\<lparr>c_Default := d, c_Attrs := a1 @ a2 @ a3 @ a4\<rparr>]\<rparr>)))"

fun addColumns :: "helpers \<Rightarrow> table \<Rightarrow> column_row option list \<Rightarrow> error + table" where
  "addColumns h t [] = Inr t"
| "addColumns h t (r # rs) =
     (case addColumn h t r of
        Inl e \<Rightarrow> Inl (Wrap ''oracle'' e)
      | Inr t1 \<Rightarrow> addColumns h t1 rs)"

definition columns :: "inspect \<Rightarrow> table \<Rightarrow> error + table" where
  "columns i t =
     (case q_columns i (t_Schema t) (t_Name t) of
        Inl e \<Rightarrow> Inl (Wrap (''oracle: querying '' @ t_Name t @ '' columns'') e)
      | Inr rs \<Rightarrow>
          (case addColumns (i_sqlx i) t (rows_items rs) of
             Inl e \<Rightarrow> Inl e
           | Inr t1 \<Rightarrow> (case rows_close rs of Some e \<Rightarrow> Inl e | None \<Rightarrow> Inr t1)))"

subsection \<open>Indexes\<close>

text \<open>
  One round of the loop of \<open>addIndexes\<close>. \<open>names\<close> is the map from index names to the index
  objects made so far (their positions in \<open>idx_store\<close>). \<open>Inr\<close> carries the table and the
  map after the round.
\<close>

definition new_index :: "helpers \<Rightarrow> index_row \<Rightarrow> index" where
  "new_index h r =
     \<lparr>i_Name = ir_name r, i_Unique = ir_uniq r,
      i_Attrs = [IndexType (ir_typ r)]
        @ (if ValidString h (ir_comment r) then [Comment (String_of (ir_comment r))] else [])
        @ (if ValidString h (ir_contype r) then [ConType (String_of (ir_contype r))] else [])
        @ (if ValidString h (ir_pred r) then [IndexPredicate (String_of (ir_pred r))] else []),
      i_Parts = []\<rparr>"

definition append_part :: "nat \<Rightarrow> index_part \<Rightarrow> table \<Rightarrow> table" where
  "append_part k p t =
     t\<lparr>idx_store := (idx_store t)[k := (idx_store t ! k)\<lparr>i_Parts := i_Parts (idx_store t ! k) @ [p]\<rparr>]\<rparr>"

definition add_backref :: "nat \<Rightarrow> nat \<Rightarrow> table \<Rightarrow> table" where
  "add_backref ci k t =
     t\<lparr>t_Columns := (t_Columns t)[ci := (t_Columns t ! ci)\<lparr>c_Indexes := c_Indexes (t_Columns t ! ci) @ [k]\<rparr>]\<rparr>"

definition addIndex ::
  "helpers \<Rightarrow> table \<times> (string \<rightharpoonup> nat) \<Rightarrow> index_row option
     \<Rightarrow> error + table \<times> (string \<rightharpoonup> nat)" where
  "addIndex h st row =
     (case row of
        None \<Rightarrow> Inl (Wrap ''oracle: scanning index'' ScanError)
      | Some r \<Rightarrow>
          let (t, names) = st;
              (t1, names1, k) =
                (case names (ir_name r) of
                   Some k \<Rightarrow> (t, names, k)
                 | None \<Rightarrow>
                     let k = length (idx_store t);
                         t0 = t\<lparr>idx_store := idx_store t @ [new_index h r]\<rparr>
                     in (if ir_primary r then t0\<lparr>t_PrimaryKey := Some k\<rparr>
                         else t0\<lparr>t_Indexes := t_Indexes t0 @ [k]\<rparr>,
                         names(ir_name r \<mapsto> k), k));
              part = \<lparr>p_SeqNo = int (length (i_Parts (idx_store t1 ! k))) + 1,
                      p_C = None, p_X = None,
                      p_Attrs = [IndexColumnProperty (Bool_of (ir_asc r)) (Bool_of (ir_desc r))
                                   (Bool_of (ir_nullsfirst r)) (Bool_of (ir_nullslast r))]\<rparr>
          in if ValidString h (ir_expr r)
             then Inr (append_part k (part\<lparr>p_X := Some (RawExpr (String_of (ir_expr r)))\<rparr>) t1,
                       names1)
             else if ValidString h (ir_column r)
             then (case Column t1 (String_of (ir_column r)) of
                     None \<Rightarrow>
                       Inl (ErrIndexColumnNotFound (String_of (ir_column r))
                              (i_Name (idx_store t1 ! k)))
                   | Some ci \<Rightarrow>
                       Inr (append_part k (part\<lparr>p_C := Some ci\<rparr>) (add_backref ci k t1), names1))
             else Inl (ErrInvalidIndexPart (i_Name (idx_store t1 ! k))))"

fun addIndexes_loop ::
  "helpers \<Rightarrow> table \<times> (string \<rightharpoonup> nat) \<Rightarrow> index_row option list \<Rightarrow> error + table" where
  "addIndexes_loop h st [] = Inr (fst st)"
| "addIndexes_loop h st (r # rs) =
     (case addIndex h st r of
        Inl e \<Rightarrow> Inl e
      | Inr st1 \<Rightarrow> addIndexes_loop h st1 rs)"

definition addIndexes :: "helpers \<Rightarrow> table \<Rightarrow> index_row option list \<Rightarrow> error + table" where
  "addIndexes h t rs = addIndexes_loop h (t, Map.empty) rs"

definition indexes :: "inspect \<Rightarrow> table \<Rightarrow> error + table" where
  "indexes i t =
     (case q_indexes i (t_Schema t) (t_Name t) of
        Inl e \<Rightarrow> Inl (Wrap (''oracle: querying '' @ t_Name t @ '' indexes'') e)
      | Inr rs \<Rightarrow>
          (case addIndexes (i_sqlx i) t (rows_items rs) of
             Inl e \<Rightarrow> Inl e
           | Inr t1 \<Rightarrow> (case rows_err rs of Some e \<Rightarrow> Inl e | None \<Rightarrow> Inr t1)))"

subsection \<open>Foreign keys\<close>

definition fks :: "inspect \<Rightarrow> table \<Rightarrow> error + table" where
  "fks i t =
     (case q_fks i (t_Schema t) (t_Name t) of
        Inl e \<Rightarrow> Inl (Wrap (''oracle: querying '' @ t_Name t @ '' foreign keys'') e)
      | Inr rs \<Rightarrow>
          (case ScanFKs (i_sqlx i) t rs of
             Inl e \<Rightarrow> Inl (Wrap ''oracle'' e)
           | Inr t1 \<Rightarrow> (case rows_err rs of Some e \<Rightarrow> Inl e | None \<Rightarrow> Inr t1)))"

subsection \<open>Check constraints\<close>

text \<open>
  One round of the loop of \<open>addChecks\<close>. \<open>names\<close> maps a constraint name to the check made
  for it (its position in the table's \<open>Attrs\<close>). The column is appended to the first
  attribute of the check, which the type assertion requires to be a \<open>CheckColumns\<close>.
\<close>

fun add_check_column :: "attr \<Rightarrow> string \<Rightarrow> attr option" where
  "add_check_column (Check n e (CheckColumns cs # as)) c = Some (Check n e (CheckColumns (cs @ [c]) # as))"
| "add_check_column _ c = None"

definition addCheck ::
  "table \<times> (string \<rightharpoonup> nat) \<Rightarrow> check_row option \<Rightarrow> error + table \<times> (string \<rightharpoonup> nat)" where
  "addCheck st row =
     (case row of
        None \<Rightarrow> Inl (Wrap ''oracle: scanning check'' ScanError)
      | Some r \<Rightarrow>
          let (t, names) = st in
          if Column t (kr_column r) = None
          then Inl (ErrCheckColumnNotFound (kr_column r) (kr_name r))
          else
            let (t1, names1, k) =
                  (case names (kr_name r) of
                     Some k \<Rightarrow> (t, names, k)
                   | None \<Rightarrow>
                       let k = length (t_Attrs t);
                           check = Check (kr_name r) (kr_clause r)
                                     ([CheckColumns []] @ (if kr_noInherit r then [NoInherit] else []))
                       in (t\<lparr>t_Attrs := t_Attrs t @ [check]\<rparr>, names(kr_name r \<mapsto> k), k))
            in (case add_check_column (t_Attrs t1 ! k) (kr_column r) of
                  None \<Rightarrow> Inl RuntimePanic
                | Some check \<Rightarrow> Inr (t1\<lparr>t_Attrs := (t_Attrs t1)[k := check]\<rparr>, names1)))"

fun addChecks_loop ::
  "table \<times> (string \<rightharpoonup> nat) \<Rightarrow> check_row option list \<Rightarrow> error + table" where
  "addChecks_loop st [] = Inr (fst st)"
| "addChecks_loop st (r # rs) =
     (case addCheck st r of
        Inl e \<Rightarrow> Inl e
      | Inr st1 \<Rightarrow> addChecks_loop st1 rs)"

definition addChecks :: "table \<Rightarrow> check_row option list \<Rightarrow> error + table" where
  "addChecks t rs = addChecks_loop (t, Map.empty) rs"

definition checks :: "inspect \<Rightarrow> table \<Rightarrow> error + table" where
  "checks i t =
     (case q_checks i (t_Schema t) (t_Name t) of
        Inl e \<Rightarrow> Inl (Wrap (''mysql: querying '' @ t_Name t @ '' check constraints'') e)
      | Inr rs \<Rightarrow>
          (case addChecks t (rows_items rs) of
             Inl e \<Rightarrow> Inl e
           | Inr t1 \<Rightarrow> (case rows_err rs of Some e \<Rightarrow> Inl e | None \<Rightarrow> Inr t1)))"

subsection \<open>Tables\<close>

text \<open>
  \<open>table\<close> (here \<open>table_lookup\<close>): the identity query. The options are \<open>None\<close> for a nil pointer and \<open>Some s\<close> for
  options with schema \<open>s\<close>; the query is the one with a schema argument when a non-empty
  schema is given.
\<close>

definition schema_arg :: "string option \<Rightarrow> string option" where
  "schema_arg opts = (case opts of None \<Rightarrow> None | Some s \<Rightarrow> if s \<noteq> [] then Some s else None)"

definition table_lookup :: "inspect \<Rightarrow> string \<Rightarrow> string option \<Rightarrow> error + table" where
  "table_lookup i name opts =
     (case q_table i name (schema_arg opts) of
        Inl e \<Rightarrow> Inl e
      | Inr rs \<Rightarrow>
          (case ScanOne rs of
             Inl e \<Rightarrow>
               if e = ErrNoRows then Inl (NotExistError (''oracle: table '' @ name @ '' was not found''))
               else Inl e
           | Inr (tSchema, comment) \<Rightarrow>
               Inr \<lparr>t_Name = name, t_Schema = String_of tSchema, t_Columns = [], t_Indexes = [],
                    t_PrimaryKey = None, t_ForeignKeys = [],
                    t_Attrs = (if ValidString (i_sqlx i) comment
                               then [Comment (String_of comment)] else []),
                    idx_store = []\<rparr>))"

text \<open>\<open>inspectTable\<close>; \<open>top_s\<close> (the parameter \<open>top\<close>) is the schema the table is linked to, if one is given.\<close>

definition link_top :: "table \<Rightarrow> schema option \<Rightarrow> table" where
  "link_top t top_s = (case top_s of None \<Rightarrow> t | Some s \<Rightarrow> t\<lparr>t_Schema := s_Name s\<rparr>)"

definition inspectTable ::
  "inspect \<Rightarrow> string \<Rightarrow> string option \<Rightarrow> schema option \<Rightarrow> error + table" where
  "inspectTable i name opts top_s =
     (case table_lookup i name opts of
        Inl e \<Rightarrow> Inl e
      | Inr t \<Rightarrow>
          let t0 = link_top t top_s in
          (case columns i t0 of
             Inl e \<Rightarrow> Inl e
           | Inr t1 \<Rightarrow>
               (case indexes i t1 of
                  Inl e \<Rightarrow> Inl e
                | Inr t2 \<Rightarrow>
                    (case fks i t2 of
                       Inl e \<Rightarrow> Inl e
                     | Inr t3 \<Rightarrow> checks i t3))))"

definition InspectTable :: "inspect \<Rightarrow> string \<Rightarrow> string option \<Rightarrow> error + table" where
  "InspectTable i name opts = inspectTable i name opts None"

subsection \<open>Schemas and realms\<close>

fun scan_schemas :: "string option list \<Rightarrow> error + schema list" where
  "scan_schemas [] = Inr []"
| "scan_schemas (None # rs) = Inl ScanError"
| "scan_schemas (Some n # rs) =
     (case scan_schemas rs of
        Inl e \<Rightarrow> Inl e
      | Inr ss \<Rightarrow> Inr (\<lparr>s_Name = n, s_Tables = [], s_Realm = None\<rparr> # ss))"

text \<open>\<open>schemas\<close>; the argument is the list of schema names of the options (empty for nil
  options).\<close>

definition schemas :: "inspect \<Rightarrow> string list \<Rightarrow> error + schema list" where
  "schemas i names =
     (case q_schemas i names of
        Inl e \<Rightarrow> Inl (Wrap ''oracle: querying schemas'' e)
      | Inr rs \<Rightarrow> scan_schemas (rows_items rs))"

text \<open>\<open>tableNames\<close>; \<open>tables\<close> is the list of table names of the options (empty for nil
  options).\<close>

definition tableNames :: "inspect \<Rightarrow> string \<Rightarrow> string list \<Rightarrow> error + string list" where
  "tableNames i sch tables =
     (case q_tables i sch tables of
        Inl e \<Rightarrow> Inl (Wrap ''oracle: querying schema tables'' e)
      | Inr rs \<Rightarrow>
          (case ScanStrings rs of
             Inl e \<Rightarrow> Inl (Wrap ''oracle: scanning table names'' e)
           | Inr names \<Rightarrow> Inr names))"

text \<open>The loop over the table names of a schema: each table is inspected and appended to
  the schema; the first error ends the loop.\<close>

fun inspectTables :: "inspect \<Rightarrow> schema \<Rightarrow> string list \<Rightarrow> error + schema" where
  "inspectTables i s [] = Inr s"
| "inspectTables i s (name # names) =
     (case inspectTable i name (Some (s_Name s)) (Some s) of
        Inl e \<Rightarrow> Inl e
      | Inr t \<Rightarrow> inspectTables i (s\<lparr>s_Tables := s_Tables s @ [t]\<rparr>) names)"

definition realm_attrs :: "inspect \<Rightarrow> attr list" where
  "realm_attrs i = [Collation (collate (i_conn i)), CType (ctype (i_conn i))]"

definition InspectSchema :: "inspect \<Rightarrow> string \<Rightarrow> string list \<Rightarrow> error + schema" where
  "InspectSchema i name tables =
     (case (if name = [] then
              (case q_attached i of
                 Inl e \<Rightarrow> Inl (Wrap ''oracle: query attached schema'' e)
               | Inr rs \<Rightarrow>
                   (case ScanOne rs of
                      Inl e \<Rightarrow> Inl (Wrap ''oracle: scan attached schema'' e)
                    | Inr n \<Rightarrow> Inr (n, [\<lparr>s_Name = n, s_Tables = [], s_Realm = None\<rparr>])))
            else
              (case schemas i [name] of
                 Inl e \<Rightarrow> Inl e
               | Inr ss \<Rightarrow>
                   if length ss = 0
                   then Inl (NotExistError (''oracle: schema '' @ name @ '' was not found''))
                   else Inr (name, ss))) of
        Inl e \<Rightarrow> Inl e
      | Inr (name1, ss) \<Rightarrow>
          (case tableNames i name1 tables of
             Inl e \<Rightarrow> Inl e
           | Inr names \<Rightarrow>
               (case inspectTables i (hd ss) names of
                  Inl e \<Rightarrow> Inl e
                | Inr s \<Rightarrow>
                    let linked = LinkSchemaTables (i_sqlx i) (s # tl ss) in
                    Inr ((hd linked)\<lparr>s_Realm :=
                           Some \<lparr>r_Schemas = map s_Name linked, r_Attrs = realm_attrs i\<rparr>\<rparr>))))"



text \<open>A column of the given canonical type and raw type name, without default and
  attributes, for evaluating the classifier on concrete inputs.\<close>

definition column_of_type :: "schema_type \<Rightarrow> string \<Rightarrow> column" where
  "column_of_type ty raw =
     \<lparr>c_Name = ''c'', c_Type = \<lparr>ct_Type = ty, ct_Raw = raw, ct_Null = False\<rparr>,
      c_Default = None, c_Attrs = [], c_Indexes = []\<rparr>"

section \<open>A sample catalog\<close>

text \<open>
  A query result of the given rows, all of them scanned, without errors; and a catalog for
  evaluating the inspector on concrete inputs: the schema \<open>HR\<close> with the table \<open>EMP\<close>,
  which has the columns \<open>col1\<close> and \<open>col2\<close>, the index \<open>idx_a\<close> over both and a check
  constraint on \<open>col2\<close>. The session is attached to a schema \<open>GHOST\<close> that the schema
  list does not have.
\<close>

definition rows_of :: "'r list \<Rightarrow> 'r rows" where
  "rows_of xs = \<lparr>rows_items = map Some xs, rows_err = None, rows_close = None\<rparr>"

definition sample_column_row :: "string \<Rightarrow> string \<Rightarrow> column_row" where
  "sample_column_row n ty =
     \<lparr>cr_name = Some n, cr_typ = Some ty, cr_nullable = Some ''NO'', cr_defaults = None,
      cr_maxlen = None, cr_precision = None, cr_scale = None, cr_charset = None,
      cr_collation = None, cr_udt = None, cr_identity = None, cr_seqstart = None,
      cr_seqinc = None, cr_generation = None, cr_comment = None, cr_typtype = None,
      cr_typid = None\<rparr>"

definition sample_index_row :: "string \<Rightarrow> string option \<Rightarrow> string option \<Rightarrow> bool \<Rightarrow> index_row" where
  "sample_index_row n c x pk =
     \<lparr>ir_name = n, ir_typ = ''NORMAL'', ir_column = c, ir_primary = pk, ir_uniq = pk,
      ir_contype = None, ir_pred = None, ir_expr = x, ir_asc = Some True, ir_desc = Some False,
      ir_nullsfirst = Some False, ir_nullslast = Some True, ir_comment = None\<rparr>"

definition sample_check_row :: "string \<Rightarrow> string \<Rightarrow> string \<Rightarrow> check_row" where
  "sample_check_row n e c =
     \<lparr>kr_name = n, kr_clause = e, kr_column = c, kr_indexes = ''{2}'', kr_noInherit = False\<rparr>"

definition restrict_names :: "string list \<Rightarrow> string list \<Rightarrow> string list" where
  "restrict_names names xs = (if names = [] then xs else filter (\<lambda>x. x \<in> set names) xs)"

definition sample_db :: inspect where
  "sample_db =
     \<lparr>i_conn = \<lparr>collate = ''BINARY'', ctype = ''AMERICAN'', version = ''09.02.00''\<rparr>,
      q_attached = Inr (rows_of [''GHOST'']),
      q_schemas = (\<lambda>names. Inr (rows_of (restrict_names names [''HR'']))),
      q_tables = (\<lambda>s names. Inr (rows_of (if s = ''HR'' then restrict_names names [''EMP''] else []))),
      q_table = (\<lambda>name sch. Inr (rows_of
         (if name = ''EMP'' \<and> sch = Some ''HR'' then [(Some ''HR'', None)] else []))),
      q_columns = (\<lambda>s t. Inr (rows_of
         (if s = ''HR'' \<and> t = ''EMP''
          then [sample_column_row ''col1'' ''int'', sample_column_row ''col2'' ''varchar2'']
          else []))),
      q_indexes = (\<lambda>s t. Inr (rows_of
         (if s = ''HR'' \<and> t = ''EMP''
          then [sample_index_row ''idx_a'' (Some ''col1'') None False,
                sample_index_row ''idx_a'' (Some ''col2'') None False]
          else []))),
      q_fks = (\<lambda>s t. Inr (rows_of [])),
      q_checks = (\<lambda>s t. Inr (rows_of
         (if s = ''HR'' \<and> t = ''EMP''
          then [sample_check_row ''ck'' ''col2 is not null'' ''col2''] else []))),
      i_sqlx = std_helpers\<rparr>"

section \<open>Index assembly as the specification words it\<close>

text \<open>
  The index names in first-seen order, the rows of one index name in encounter order, and
  the index assembled from them: name, uniqueness and attributes come from the first row
  of the name, and the \<open>j\<close>-th row of the name gives the \<open>j\<close>-th part, with sequence number
  \<open>j\<close>, which holds the expression of the row or else refers to the column the row names.
\<close>

definition first_seen :: "string list \<Rightarrow> string list" where
  "first_seen xs = rev (remdups (rev xs))"

definition rows_named :: "string \<Rightarrow> index_row list \<Rightarrow> index_row list" where
  "rows_named n rows = filter (\<lambda>r. ir_name r = n) rows"

definition part_of :: "helpers \<Rightarrow> column list \<Rightarrow> nat \<Rightarrow> index_row \<Rightarrow> index_part" where
  "part_of h cols j r =
     \<lparr>p_SeqNo = int j,
      p_C = (if ValidString h (ir_expr r) then None
             else find_column cols (String_of (ir_column r))),
      p_X = (if ValidString h (ir_expr r) then Some (RawExpr (String_of (ir_expr r))) else None),
      p_Attrs = [IndexColumnProperty (Bool_of (ir_asc r)) (Bool_of (ir_desc r))
                   (Bool_of (ir_nullsfirst r)) (Bool_of (ir_nullslast r))]\<rparr>"

definition assemble :: "helpers \<Rightarrow> column list \<Rightarrow> index_row list \<Rightarrow> string \<Rightarrow> index" where
  "assemble h cols rows n =
     (new_index h (hd (rows_named n rows)))
       \<lparr>i_Parts := map (\<lambda>(j, r). part_of h cols j r) (enumerate 1 (rows_named n rows))\<rparr>"

text \<open>The primary-key flag of an index name: the flag of its first row.\<close>

definition primary_name :: "index_row list \<Rightarrow> string \<Rightarrow> bool" where
  "primary_name rows n = ir_primary (hd (rows_named n rows))"


text \<open>The table \<open>EMP\<close> of the sample catalog as it is after the columns have been read,
  and the catalog with other index rows or check rows for that table.\<close>

definition sample_table :: table where
  "sample_table =
     \<lparr>t_Name = ''EMP'', t_Schema = ''HR'',
      t_Columns =
        [\<lparr>c_Name = ''col1'',
          c_Type = \<lparr>ct_Type = IntegerType ''int'', ct_Raw = ''int'', ct_Null = False\<rparr>,
          c_Default = None, c_Attrs = [], c_Indexes = []\<rparr>,
         \<lparr>c_Name = ''col2'',
          c_Type = \<lparr>ct_Type = StringType ''varchar2'' 0, ct_Raw = ''varchar2'', ct_Null = False\<rparr>,
          c_Default = None, c_Attrs = [], c_Indexes = []\<rparr>],
      t_Indexes = [], t_PrimaryKey = None, t_ForeignKeys = [], t_Attrs = [], idx_store = []\<rparr>"

definition with_index_rows :: "index_row list \<Rightarrow> inspect" where
  "with_index_rows rs = sample_db\<lparr>q_indexes := (\<lambda>s t. Inr (rows_of rs))\<rparr>"

definition with_check_rows :: "check_row list \<Rightarrow> inspect" where
  "with_check_rows rs = sample_db\<lparr>q_checks := (\<lambda>s t. Inr (rows_of rs))\<rparr>"

text \<open>The positions, in first-seen order of the index names, of the ordinary indexes and
  of the indexes flagged as primary key.\<close>

definition ordinary_positions :: "index_row list \<Rightarrow> nat list" where
  "ordinary_positions rows =
     map fst (filter (\<lambda>(k, n). \<not> primary_name rows n)
                (enumerate 0 (first_seen (map ir_name rows))))"

definition primary_positions :: "index_row list \<Rightarrow> nat list" where
  "primary_positions rows =
     map fst (filter (\<lambda>(k, n). primary_name rows n)
                (enumerate 0 (first_seen (map ir_name rows))))"

text \<open>The state of the loop of \<open>addIndexes\<close>, started on a table without indexes, after
  the rows \<open>pre\<close>: the store holds the indexes assembled from \<open>pre\<close>, the map of names
  their positions.\<close>

definition loop_state ::
  "helpers \<Rightarrow> column list \<Rightarrow> index_row list \<Rightarrow> table \<times> (string \<rightharpoonup> nat) \<Rightarrow> bool" where
  "loop_state h cols pre st =
     (idx_store (fst st) = map (assemble h cols pre) (first_seen (map ir_name pre)) \<and>
      (\<forall>n k. (snd st n = Some k) =
         (k < length (first_seen (map ir_name pre)) \<and> first_seen (map ir_name pre) ! k = n)) \<and>
      map c_Name (t_Columns (fst st)) = map c_Name cols \<and>
      t_Indexes (fst st) = ordinary_positions pre \<and>
      t_PrimaryKey (fst st) =
        (case primary_positions pre of [] \<Rightarrow> None | k # ks \<Rightarrow> Some (last (k # ks))))"

section \<open>Properties of the type layer\<close>

lemmas parse_defs =
  ParseType_def parseColumn_def FieldsFunc_def is_sep_def parseCharParts_def HasPrefix_def
  slice_from_def ParseInt_def ParseUint_def digit_val_def columnType_def ToLower_def
  lower_char_def

lemmas fmt_defs = fmt_d_def digits_of.simps digit_char_def

subsection \<open>Printing and parsing decimal numbers, and the tokenizer\<close>

lemma fields_acc_run:
  "\<forall>c\<in>set w. \<not> f c \<Longrightarrow> fields_acc f cur (w @ rest) = fields_acc f (cur @ w) rest"
  by (induction w arbitrary: cur) auto

lemma lt10_cases: "d < (10::nat) \<Longrightarrow> d = 0 \<or> d = 1 \<or> d = 2 \<or> d = 3 \<or> d = 4 \<or> d = 5 \<or> d = 6 \<or> d = 7 \<or> d = 8 \<or> d = 9"
  by arith

lemma digit_char_in: "d < 10 \<Longrightarrow> digit_char d \<in> set ''0123456789''"
  using lt10_cases [of d] by (auto simp: digit_char_def)

lemma digit_val_digit_char: "d < 10 \<Longrightarrow> digit_val (digit_char d) = Some d"
  using lt10_cases [of d] by (auto simp: digit_char_def digit_val_def)

lemma digits_of_set: "set (digits_of n) \<subseteq> set ''0123456789''"
proof (induction n rule: digits_of.induct)
  case (1 n)
  show ?case
  proof (cases "n < 10")
    case True
    then show ?thesis using digit_char_in [of n] by (subst digits_of.simps) simp
  next
    case False
    have "n mod 10 < 10" by simp
    then have "digit_char (n mod 10) \<in> set ''0123456789''" by (rule digit_char_in)
    with False 1 show ?thesis by (subst digits_of.simps) simp
  qed
qed

lemma digits_of_nonempty: "digits_of n \<noteq> []"
  by (subst digits_of.simps) simp

lemma parse_digits_append:
  "parse_digits acc (xs @ ys) =
     (case parse_digits acc xs of None \<Rightarrow> None | Some a \<Rightarrow> parse_digits a ys)"
  by (induction xs arbitrary: acc) (auto split: option.splits)

lemma parse_digits_digits_of:
  "parse_digits acc (digits_of n) = Some (acc * 10 ^ length (digits_of n) + n)"
proof (induction n arbitrary: acc rule: digits_of.induct)
  case (1 n)
  show ?case
  proof (cases "n < 10")
    case True
    then show ?thesis by (subst (1 2) digits_of.simps) (simp add: digit_val_digit_char)
  next
    case False
    have m: "digit_val (digit_char (n mod 10)) = Some (n mod 10)"
      by (rule digit_val_digit_char) simp
    have s: "digits_of n = digits_of (n div 10) @ [digit_char (n mod 10)]"
      using False by (subst digits_of.simps) simp
    show ?thesis
      unfolding s using 1 [OF False] m
      by (simp add: parse_digits_append algebra_simps)
  qed
qed

lemma ParseUint_digits_of: "ParseUint (digits_of n) = Some n"
  by (simp add: ParseUint_def digits_of_nonempty parse_digits_digits_of)

lemma digits_of_hd: "\<exists>c cs. digits_of n = c # cs \<and> c \<in> set ''0123456789''"
  using digits_of_nonempty [of n] digits_of_set [of n]
  by (cases "digits_of n") auto

lemma ParseInt_fmt_d:
  assumes "- (2 ^ 63) \<le> n" "n < 2 ^ 63"
  shows "ParseInt (fmt_d n) = Some n"
proof (cases "n < 0")
  case True
  have "nat (- n) \<le> 2 ^ 63" using assms True by (simp add: nat_le_iff)
  then show ?thesis using True
    by (simp add: ParseInt_def fmt_d_def ParseUint_digits_of)
next
  case False
  obtain c cs where d: "digits_of (nat n) = c # cs" "c \<in> set ''0123456789''"
    using digits_of_hd by blast
  have u: "ParseUint (c # cs) = Some (nat n)" using ParseUint_digits_of [of "nat n"] d by simp
  have r: "nat n < 2 ^ 63" using assms False by (simp add: nat_less_iff)
  show ?thesis using False d u r
    by (auto simp: ParseInt_def fmt_d_def)
qed

lemma fmt_d_no_sep: "\<forall>c\<in>set (fmt_d n). \<not> is_sep c"
  using digits_of_set [of "nat n"] digits_of_set [of "nat (- n)"]
  by (auto simp: fmt_d_def is_sep_def)

lemma fmt_d_nonempty: "fmt_d n \<noteq> []"
  by (simp add: fmt_d_def digits_of_nonempty)

lemma fields_one_arg:
  assumes "\<forall>c\<in>set w. \<not> is_sep c" "w \<noteq> []" "\<forall>c\<in>set a. \<not> is_sep c" "a \<noteq> []"
  shows "FieldsFunc (w @ ''('' @ a @ '')'') is_sep = [w, a]"
  using assms
  by (simp add: FieldsFunc_def fields_acc_run is_sep_def)

lemma fields_two_args:
  assumes "\<forall>c\<in>set w. \<not> is_sep c" "w \<noteq> []" "\<forall>c\<in>set a. \<not> is_sep c" "a \<noteq> []"
    "\<forall>c\<in>set b. \<not> is_sep c" "b \<noteq> []"
  shows "FieldsFunc (w @ ''('' @ a @ '','' @ b @ '')'') is_sep = [w, a, b]"
  using assms
  by (simp add: FieldsFunc_def fields_acc_run is_sep_def)


lemma fields_varchar: "FieldsFunc (''varchar2('' @ fmt_d n @ '')'') is_sep = [''varchar2'', fmt_d n]"
proof -
  have "\<forall>c\<in>set ''varchar2''. \<not> is_sep c" by (simp add: is_sep_def)
  from fields_one_arg [OF this _ fmt_d_no_sep fmt_d_nonempty] show ?thesis by simp
qed

lemma fields_number1: "FieldsFunc (''number('' @ fmt_d p @ '')'') is_sep = [''number'', fmt_d p]"
proof -
  have "\<forall>c\<in>set ''number''. \<not> is_sep c" by (simp add: is_sep_def)
  from fields_one_arg [OF this _ fmt_d_no_sep fmt_d_nonempty] show ?thesis by simp
qed

lemma fields_number2:
  "FieldsFunc (''number('' @ fmt_d p @ '','' @ fmt_d s @ '')'') is_sep = [''number'', fmt_d p, fmt_d s]"
proof -
  have "\<forall>c\<in>set ''number''. \<not> is_sep c" by (simp add: is_sep_def)
  from fields_two_args [OF this _ fmt_d_no_sep fmt_d_nonempty fmt_d_no_sep fmt_d_nonempty]
  show ?thesis by simp
qed

lemma ParseType_varchar:
  assumes "- (2 ^ 63) \<le> n" "n < 2 ^ 63"
  shows "ParseType (''varchar2('' @ fmt_d n @ '')'') = Inr (StringType ''varchar2'' n)"
  using ParseInt_fmt_d [OF assms]
  by (simp add: ParseType_def parseColumn_def fields_varchar [simplified] parseCharParts_def HasPrefix_def
      slice_from_def columnType_def ToLower_def lower_char_def)

lemma ParseType_number1:
  assumes "- (2 ^ 63) \<le> p" "p < 2 ^ 63"
  shows "ParseType (''number('' @ fmt_d p @ '')'') = Inr (DecimalType ''number'' p 0)"
  using ParseInt_fmt_d [OF assms]
  by (simp add: ParseType_def parseColumn_def fields_number1 [simplified] columnType_def ToLower_def lower_char_def)

lemma ParseType_number2:
  assumes "- (2 ^ 63) \<le> p" "p < 2 ^ 63" "- (2 ^ 63) \<le> s" "s < 2 ^ 63"
  shows "ParseType (''number('' @ fmt_d p @ '','' @ fmt_d s @ '')'') = Inr (DecimalType ''number'' p s)"
  using ParseInt_fmt_d [OF assms(1,2)] ParseInt_fmt_d [OF assms(3,4)]
  by (simp add: ParseType_def parseColumn_def fields_number2 [simplified] columnType_def ToLower_def lower_char_def)

subsection \<open>Round trip\<close>

text \<open>
  Claim C1 (as amended). \<open>FormatType (ParseType x)\<close> returns \<open>x\<close> for: \<open>varchar2(n)\<close> with
  \<open>2 \<le> n \<le> 4000\<close>; \<open>number(p)\<close> with \<open>p \<noteq> 0\<close>; \<open>number(p,s)\<close> with \<open>p \<noteq> 0\<close> and
  \<open>s > 0\<close> (the numbers printed as \<open>%d\<close> prints them, within the signed 64-bit range); the
  representative inputs of the specification; and the bare names \<open>number\<close>, \<open>float\<close>,
  \<open>double\<close>, \<open>timestamp\<close> and \<open>timestamp with local time zone\<close>.
\<close>

theorem Format_Parse_roundtrip:
  "(2 \<le> n \<and> n \<le> 4000 \<longrightarrow>
      Format_Parse (''varchar2('' @ fmt_d n @ '')'') = Inr (''varchar2('' @ fmt_d n @ '')'')) \<and>
   (p \<noteq> 0 \<and> - (2 ^ 63) \<le> p \<and> p < 2 ^ 63 \<longrightarrow>
      Format_Parse (''number('' @ fmt_d p @ '')'') = Inr (''number('' @ fmt_d p @ '')'')) \<and>
   (p \<noteq> 0 \<and> - (2 ^ 63) \<le> p \<and> p < 2 ^ 63 \<and> 0 < s \<and> s < 2 ^ 63 \<longrightarrow>
      Format_Parse (''number('' @ fmt_d p @ '','' @ fmt_d s @ '')'') =
        Inr (''number('' @ fmt_d p @ '','' @ fmt_d s @ '')'')) \<and>
   Format_Parse ''varchar2(255)'' = Inr ''varchar2(255)'' \<and>
   Format_Parse ''number(10,2)'' = Inr ''number(10,2)'' \<and>
   Format_Parse ''number(5)'' = Inr ''number(5)'' \<and>
   Format_Parse ''int'' = Inr ''int'' \<and>
   Format_Parse ''date'' = Inr ''date'' \<and>
   Format_Parse ''timestamp with time zone'' = Inr ''timestamp with time zone'' \<and>
   Format_Parse ''json'' = Inr ''json'' \<and>
   Format_Parse ''number'' = Inr ''number'' \<and>
   Format_Parse ''float'' = Inr ''float'' \<and>
   Format_Parse ''double'' = Inr ''double'' \<and>
   Format_Parse ''timestamp'' = Inr ''timestamp'' \<and>
   Format_Parse ''timestamp with local time zone'' = Inr ''timestamp with local time zone''"
proof -
  have a: "2 \<le> n \<and> n \<le> 4000 \<longrightarrow>
      Format_Parse (''varchar2('' @ fmt_d n @ '')'') = Inr (''varchar2('' @ fmt_d n @ '')'')"
  proof
    assume h: "2 \<le> n \<and> n \<le> 4000"
    then have "ParseType (''varchar2('' @ fmt_d n @ '')'') = Inr (StringType ''varchar2'' n)"
      by (intro ParseType_varchar) simp_all
    with h show "Format_Parse (''varchar2('' @ fmt_d n @ '')'') = Inr (''varchar2('' @ fmt_d n @ '')'')"
      by (simp add: Format_Parse_def)
  qed
  have b: "p \<noteq> 0 \<and> - (2 ^ 63) \<le> p \<and> p < 2 ^ 63 \<longrightarrow>
      Format_Parse (''number('' @ fmt_d p @ '')'') = Inr (''number('' @ fmt_d p @ '')'')"
  proof
    assume h: "p \<noteq> 0 \<and> - (2 ^ 63) \<le> p \<and> p < 2 ^ 63"
    then have "ParseType (''number('' @ fmt_d p @ '')'') = Inr (DecimalType ''number'' p 0)"
      by (intro ParseType_number1) simp_all
    with h show "Format_Parse (''number('' @ fmt_d p @ '')'') = Inr (''number('' @ fmt_d p @ '')'')"
      by (simp add: Format_Parse_def)
  qed
  have c: "p \<noteq> 0 \<and> - (2 ^ 63) \<le> p \<and> p < 2 ^ 63 \<and> 0 < s \<and> s < 2 ^ 63 \<longrightarrow>
      Format_Parse (''number('' @ fmt_d p @ '','' @ fmt_d s @ '')'') =
        Inr (''number('' @ fmt_d p @ '','' @ fmt_d s @ '')'')"
  proof
    assume h: "p \<noteq> 0 \<and> - (2 ^ 63) \<le> p \<and> p < 2 ^ 63 \<and> 0 < s \<and> s < 2 ^ 63"
    then have "ParseType (''number('' @ fmt_d p @ '','' @ fmt_d s @ '')'') = Inr (DecimalType ''number'' p s)"
      by (intro ParseType_number2) simp_all
    with h show "Format_Parse (''number('' @ fmt_d p @ '','' @ fmt_d s @ '')'') =
        Inr (''number('' @ fmt_d p @ '','' @ fmt_d s @ '')'')"
      by (simp add: Format_Parse_def)
  qed
  have d: "Format_Parse ''varchar2(255)'' = Inr ''varchar2(255)''"
    by (simp add: Format_Parse_def parse_defs fmt_defs)
  have e: "Format_Parse ''number(10,2)'' = Inr ''number(10,2)''"
    by (simp add: Format_Parse_def parse_defs fmt_defs)
  have f: "Format_Parse ''number(5)'' = Inr ''number(5)''"
    by (simp add: Format_Parse_def parse_defs fmt_defs)
  have g: "Format_Parse ''int'' = Inr ''int''" "Format_Parse ''date'' = Inr ''date''"
    "Format_Parse ''json'' = Inr ''json''" "Format_Parse ''number'' = Inr ''number''"
    "Format_Parse ''float'' = Inr ''float''" "Format_Parse ''double'' = Inr ''double''"
    "Format_Parse ''timestamp'' = Inr ''timestamp''"
    by (simp_all add: Format_Parse_def parse_defs fmt_defs)
  have i: "Format_Parse ''timestamp with time zone'' = Inr ''timestamp with time zone''"
    by (simp add: Format_Parse_def parse_defs fmt_defs)
  have j: "Format_Parse ''timestamp with local time zone'' = Inr ''timestamp with local time zone''"
    by (simp add: Format_Parse_def parse_defs fmt_defs)
  show ?thesis using a b c d e f g i j by blast
qed

theorem Format_Parse_roundtrip_witness:
  "Format_Parse ''varchar2(4000)'' = Inr ''varchar2(4000)'' \<and>
   Format_Parse ''number(-7)'' = Inr ''number(-7)'' \<and>
   Format_Parse ''number(38,12)'' = Inr ''number(38,12)''"
  using Format_Parse_roundtrip [where n = 4000 and p = "- 7" and s = 1]
    Format_Parse_roundtrip [where n = 2 and p = 38 and s = 12]
  by (simp add: fmt_defs)

text \<open>
  Claim C1 as stated fails: \<open>ParseType\<close> decodes \<open>varchar2(1)\<close> into a String type of size
  1, a supported variant, and \<open>FormatType\<close> spells every String type of size below 2 as
  \<open>char(1)\<close>.
\<close>

theorem Format_Parse_varchar2_1:
  "ParseType ''varchar2(1)'' = Inr (StringType ''varchar2'' 1) \<and>
   formattable (StringType ''varchar2'' 1) \<and>
   Format_Parse ''varchar2(1)'' = Inr ''char(1)'' \<and>
   Format_Parse ''varchar2(1)'' \<noteq> Inr ''varchar2(1)''"
  by (simp add: Format_Parse_def parse_defs fmt_defs)

text \<open>More inputs that \<open>ParseType\<close> decodes into a supported variant and that do not come
  back: \<open>FormatType\<close> spells a String type by its size alone, and a Decimal of scale 0
  without the scale. For \<open>char(n)\<close> and \<open>nchar(n)\<close> the size is moreover dropped by
  \<open>parseCharParts\<close> (it skips two tokens), and the bare \<open>char\<close> panics there.\<close>

lemma Format_Parse_char_family:
  "Format_Parse ''char(10)'' = Inr ''char(1)'' \<and>
   Format_Parse ''nchar(10)'' = Inr ''char(1)'' \<and>
   Format_Parse ''nvarchar2(10)'' = Inr ''varchar2(10)'' \<and>
   Format_Parse ''number(5,0)'' = Inr ''number(5)'' \<and>
   Format_Parse ''varchar2(4001)'' = Inr ''clob'' \<and>
   ParseType ''char'' = Inl Panic"
  by (simp add: Format_Parse_def parse_defs fmt_defs)


subsection \<open>Default precisions\<close>

text \<open>
  Claim C9 (as amended). When the first token of the input is \<open>double\<close>, \<open>int\<close> or
  \<open>float\<close>, the descriptor gets the fixed precision 53, 32 or 24. The canonical type of
  \<open>double\<close> and \<open>float\<close> is a Float type that carries that precision; the canonical type
  of \<open>int\<close> is an Integer type, which has no precision: the mapping gives the same Integer
  type whatever the descriptor's precision is.
\<close>

theorem ParseType_defaults:
  "FieldsFunc s is_sep = p0 # rest \<Longrightarrow>
   (p0 = ''double'' \<longrightarrow> map_sum id precision (parseColumn s) = Inr 53 \<and>
      ParseType s = Inr (FloatType ''double'' 53)) \<and>
   (p0 = ''float'' \<longrightarrow> map_sum id precision (parseColumn s) = Inr 24 \<and>
      ParseType s = Inr (FloatType ''float'' 24)) \<and>
   (p0 = ''int'' \<longrightarrow> map_sum id precision (parseColumn s) = Inr 32 \<and>
      ParseType s = Inr (IntegerType ''int'') \<and>
      columnType (c\<lparr>typ_d := ''int'', precision := q\<rparr>) = IntegerType ''int'')"
  by (simp add: ParseType_def parseColumn_def columnType_def ToLower_def lower_char_def)

theorem ParseType_defaults_witness:
  "map_sum id precision (parseColumn ''double'') = Inr 53 \<and>
   ParseType ''double'' = Inr (FloatType ''double'' 53) \<and>
   map_sum id precision (parseColumn ''float'') = Inr 24 \<and>
   ParseType ''float'' = Inr (FloatType ''float'' 24) \<and>
   map_sum id precision (parseColumn ''int'') = Inr 32 \<and>
   ParseType ''int'' = Inr (IntegerType ''int'')"
proof -
  have a: "FieldsFunc ''double'' is_sep = [''double'']"
    and b: "FieldsFunc ''float'' is_sep = [''float'']"
    and c: "FieldsFunc ''int'' is_sep = [''int'']"
    by (simp_all add: FieldsFunc_def is_sep_def)
  show ?thesis
    using ParseType_defaults [OF a] ParseType_defaults [OF b] ParseType_defaults [OF c]
    by simp
qed

text \<open>
  Claim C9 as stated fails for \<open>int\<close>: the descriptor has precision 32, and the canonical
  type produced, \<open>IntegerType\<close>, carries no precision.
\<close>

theorem ParseType_int_no_precision:
  "map_sum id precision (parseColumn ''int'') = Inr 32 \<and>
   ParseType ''int'' = Inr (IntegerType ''int'') \<and>
   type_precision (IntegerType ''int'') = None \<and>
   map_sum id type_precision (ParseType ''int'') \<noteq> Inr (Some 32)"
  by (simp add: parse_defs)

text \<open>
  Claim C5. Formatting a Decimal type: a negative scale is the scale error; a positive
  scale with precision 0 is the precision error (so every non-zero scale with precision 0
  is an error); precision 0 and scale 0 give the bare name \<open>number\<close>; scale 0 with a
  non-zero precision gives \<open>number(precision)\<close>; every other combination gives
  \<open>number(precision,scale)\<close>. The three examples of the specification are instances.
\<close>

theorem FormatType_decimal:
  "(s < 0 \<longrightarrow> FormatType (DecimalType t p s) = Inl (ErrDecimalScale s)) \<and>
   (p = 0 \<and> s > 0 \<longrightarrow> FormatType (DecimalType t p s) = Inl (ErrDecimalPrecision p)) \<and>
   (p = 0 \<and> s \<noteq> 0 \<longrightarrow> isl (FormatType (DecimalType t p s))) \<and>
   (p = 0 \<and> s = 0 \<longrightarrow> FormatType (DecimalType t p s) = Inr ''number'') \<and>
   (p \<noteq> 0 \<and> s = 0 \<longrightarrow>
      FormatType (DecimalType t p s) = Inr (''number('' @ fmt_d p @ '')'')) \<and>
   (p \<noteq> 0 \<and> s > 0 \<longrightarrow>
      FormatType (DecimalType t p s) = Inr (''number('' @ fmt_d p @ '','' @ fmt_d s @ '')'')) \<and>
   FormatType (DecimalType t 0 2) = Inl (ErrDecimalPrecision 0) \<and>
   FormatType (DecimalType t 0 (- 1)) = Inl (ErrDecimalScale (- 1)) \<and>
   FormatType (DecimalType t 10 0) = Inr ''number(10)''"
  by (simp add: fmt_defs)

theorem FormatType_decimal_witness:
  "FormatType (DecimalType ''number'' 7 (- 3)) = Inl (ErrDecimalScale (- 3)) \<and>
   FormatType (DecimalType ''number'' 0 4) = Inl (ErrDecimalPrecision 0) \<and>
   isl (FormatType (DecimalType ''number'' 0 4)) \<and>
   FormatType (DecimalType ''number'' 0 0) = Inr ''number'' \<and>
   FormatType (DecimalType ''number'' 38 0) = Inr ''number(38)'' \<and>
   FormatType (DecimalType ''number'' 10 2) = Inr ''number(10,2)''"
  using FormatType_decimal [where s = "- 3" and p = 7 and t = "''number''"]
    FormatType_decimal [where s = 4 and p = 0 and t = "''number''"]
    FormatType_decimal [where s = 0 and p = 0 and t = "''number''"]
    FormatType_decimal [where s = 0 and p = 38 and t = "''number''"]
    FormatType_decimal [where s = 2 and p = 10 and t = "''number''"]
  by (simp add: fmt_defs)

text \<open>
  Claim C6. Binary and string types are bucketed at the fixed boundaries 2 and 4000, the
  upper one inclusive: below 2 the fixed one-unit spelling (\<open>raw(1)\<close>, \<open>char(1)\<close>), above
  4000 the large-object spelling (\<open>blob\<close>, \<open>clob\<close>), and in between the sized spelling
  (\<open>raw(size)\<close>, \<open>varchar2(size)\<close>).
\<close>

theorem FormatType_buckets:
  "(n < 2 \<longrightarrow> FormatType (BinaryType t n) = Inr ''raw(1)'') \<and>
   (4000 < n \<longrightarrow> FormatType (BinaryType t n) = Inr ''blob'') \<and>
   (2 \<le> n \<and> n \<le> 4000 \<longrightarrow> FormatType (BinaryType t n) = Inr (''raw('' @ fmt_d n @ '')'')) \<and>
   (n < 2 \<longrightarrow> FormatType (StringType t n) = Inr ''char(1)'') \<and>
   (4000 < n \<longrightarrow> FormatType (StringType t n) = Inr ''clob'') \<and>
   (2 \<le> n \<and> n \<le> 4000 \<longrightarrow>
      FormatType (StringType t n) = Inr (''varchar2('' @ fmt_d n @ '')'')) \<and>
   FormatType (BinaryType t 1) = Inr ''raw(1)'' \<and>
   FormatType (BinaryType t 4001) = Inr ''blob'' \<and>
   FormatType (StringType t 4000) = Inr ''varchar2(4000)''"
  by (simp add: fmt_defs)

theorem FormatType_buckets_witness:
  "FormatType (BinaryType ''raw'' 0) = Inr ''raw(1)'' \<and>
   FormatType (StringType ''char'' (- 5)) = Inr ''char(1)'' \<and>
   FormatType (BinaryType ''raw'' 70000) = Inr ''blob'' \<and>
   FormatType (StringType ''varchar2'' 4001) = Inr ''clob'' \<and>
   FormatType (BinaryType ''raw'' 2) = Inr ''raw(2)'' \<and>
   FormatType (BinaryType ''raw'' 4000) = Inr ''raw(4000)'' \<and>
   FormatType (StringType ''varchar2'' 2) = Inr ''varchar2(2)''"
  using FormatType_buckets [of 0 "''raw''"] FormatType_buckets [of "- 5" "''char''"]
    FormatType_buckets [of 70000 "''raw''"] FormatType_buckets [of 4001 "''varchar2''"]
    FormatType_buckets [of 2 "''raw''"] FormatType_buckets [of 4000 "''raw''"]
    FormatType_buckets [of 2 "''varchar2''"]
  by (simp add: fmt_defs)

text \<open>
  Claim C8. \<open>FormatType\<close> fails on an \<open>UnsupportedType\<close>, with the error that names the
  type, and on every value that is not one of the seven variants it has a spelling for,
  with the invalid-type error; in particular on every value outside the variants of the
  data model, and on the \<open>UserDefinedType\<close> that \<open>ParseType\<close> makes of an unknown name.
  Whenever it returns a spelling, its argument is one of the seven. The canonical mapping
  does produce \<open>UnsupportedType\<close>: for the interval types and for unknown names.
\<close>

theorem FormatType_unsupported:
  "FormatType (UnsupportedType t) = Inl (ErrUnsupportedType t) \<and>
   (\<not> canonical_variant ty \<longrightarrow> FormatType ty = Inl ErrInvalidSchemaType) \<and>
   (\<not> formattable ty \<longrightarrow> isl (FormatType ty)) \<and>
   (FormatType ty = Inr f \<longrightarrow> formattable ty) \<and>
   FormatType (UserDefinedType t) = Inl ErrInvalidSchemaType \<and>
   columnType (c\<lparr>typ_d := ''interval day second''\<rparr>) = UnsupportedType ''interval day second'' \<and>
   columnType (c\<lparr>typ_d := ''geometry''\<rparr>) = UnsupportedType ''geometry''"
proof -
  have a: "\<not> canonical_variant ty \<longrightarrow> FormatType ty = Inl ErrInvalidSchemaType"
    by (cases ty) simp_all
  have b: "\<not> formattable ty \<longrightarrow> isl (FormatType ty)"
    by (cases ty) simp_all
  have c: "FormatType ty = Inr f \<longrightarrow> formattable ty"
    by (cases ty) simp_all
  have d: "columnType (c\<lparr>typ_d := ''interval day second''\<rparr>) = UnsupportedType ''interval day second''"
    by (simp add: columnType_def ToLower_def lower_char_def)
  have e: "columnType (c\<lparr>typ_d := ''geometry''\<rparr>) = UnsupportedType ''geometry''"
    by (simp add: columnType_def ToLower_def lower_char_def)
  show ?thesis using a b c d e by simp
qed

theorem FormatType_unsupported_witness:
  "FormatType (UnsupportedType ''interval day second'') =
     Inl (ErrUnsupportedType ''interval day second'') \<and>
   FormatType (XMLType ''xml'') = Inl ErrInvalidSchemaType \<and>
   isl (FormatType (UserDefinedType ''geometry'')) \<and>
   formattable (JSONType ''json'')"
  using FormatType_unsupported [of "''interval day second''" "XMLType ''xml''"]
    FormatType_unsupported [of "''x''" "UserDefinedType ''geometry''"]
    FormatType_unsupported [of "''x''" "JSONType ''json''" "''json''"]
  by (simp add: ToLower_def lower_char_def)

section \<open>Properties of Open\<close>

lemmas semver_defs = Open_def Compare_v10_def semver_parse_def semver_parseInt_def is_digit_def
  compareInt_def parsePrerelease_def parseBuild_def isBadNum_def isIdentChar_def

lemma not_digit_simps [simp]:
  "\<not> is_digit CHR ''.''" "\<not> is_digit CHR ''-''" "\<not> is_digit CHR ''+''" "is_digit CHR ''0''"
  by (simp_all add: is_digit_def)

lemma semver_parse_six:
  "semver_parse (CHR ''v'' # [a, b, CHR ''.'', c, d, CHR ''.'', e, f]) =
     (if two_digits [a, b] \<and> two_digits [c, d] \<and> two_digits [e, f]
      then Some \<lparr>major = [a, b], minor = [c, d], patch = [e, f], prerelease = [], build = []\<rparr>
      else None)"
  by (auto simp: semver_parse_def semver_parseInt_def two_digits_def Let_def
      parsePrerelease_def parseBuild_def)


lemma digit_code:
  "is_digit c \<Longrightarrow> 48 \<le> (of_char c :: nat)"
  "is_digit c \<Longrightarrow> c \<noteq> CHR ''0'' \<Longrightarrow> 49 \<le> (of_char c :: nat)"
  by (auto simp: is_digit_def)

lemma compareInt_two_digits:
  assumes "two_digits [a, b]"
  shows "compareInt [a, b] ''10'' = 0 \<or> compareInt [a, b] ''10'' = 1"
    and "compareInt [a, b] ''0'' = 1"
  using assms digit_code(1) [of b] digit_code(2) [of a]
  by (auto simp: compareInt_def two_digits_def)

lemma Compare_v10_six:
  "Compare_v10 (CHR ''v'' # [a, b, CHR ''.'', c, d, CHR ''.'', e, f]) =
     (if two_digits [a, b] \<and> two_digits [c, d] \<and> two_digits [e, f] then 1 else - 1)"
proof (cases "two_digits [a, b] \<and> two_digits [c, d] \<and> two_digits [e, f]")
  case True
  then show ?thesis
    using compareInt_two_digits [of a b] compareInt_two_digits(2) [of c d]
    unfolding Compare_v10_def semver_parse_six by auto
next
  case False
  then show ?thesis unfolding Compare_v10_def semver_parse_six by auto
qed

lemma length_six:
  assumes "length v = 6"
  obtains a b c d e f where "v = [a, b, c, d, e, f]"
  using assms by (auto simp: length_Suc_conv numeral_eq_Suc)

text \<open>
  The version gate of \<open>Open\<close>, for every version text of six bytes: the version is refused
  exactly when each of its three components is a number from 10 to 99 written with two
  digits. Any other text makes an invalid semantic version (a component with a leading
  zero is invalid), which \<open>semver.Compare\<close> puts below \<open>v10.0.0\<close>, and \<open>Open\<close> succeeds.
\<close>

lemma Open_version_gate:
  assumes "length v = 6"
  shows "Open (Inr (Inr [co, ct, v])) =
    (if two_digits (take 2 v) \<and> two_digits (take 2 (drop 2 v)) \<and> two_digits (drop 4 v)
     then Inl (ErrUnsupportedVersion (take 2 v @ ''.'' @ take 2 (drop 2 v) @ ''.'' @ drop 4 v))
     else Inr \<lparr>collate = co, ctype = ct,
            version = take 2 v @ ''.'' @ take 2 (drop 2 v) @ ''.'' @ drop 4 v\<rparr>)"
proof -
  obtain a b c d e f where v: "v = [a, b, c, d, e, f]"
    using assms by (rule length_six)
  show ?thesis
    unfolding v using Compare_v10_six [of a b c d e f]
    by (simp add: Open_def)
qed

lemma Open_shape:
  "length params \<noteq> 3 \<Longrightarrow> Open (Inr (Inr params)) = Inl (ErrUnexpectedRows (length params))"
  "length params = 3 \<Longrightarrow> length (params ! 2) \<noteq> 6 \<Longrightarrow>
     Open (Inr (Inr params)) = Inl (ErrMalformedVersion (params ! 2))"
  "Open (Inl e) = Inl (Wrap ''oracle: scanning system variables'' e)"
  "Open (Inr (Inl e)) = Inl (Wrap ''oracle: failed scanning rows'' e)"
  by (simp_all add: Open_def)

text \<open>
  Claim C10. \<open>Open\<close> is meant to refuse every version from 10.0.0 on. It does not: for
  the version text \<open>120100\<close> (12.01.00) and for \<open>190000\<close> (19.00.00) it succeeds, because
  the reformatted text has components with a leading zero; it refuses \<open>101010\<close>.
  A version below 10, \<open>090200\<close>, is accepted.
\<close>

theorem Open_accepts_12_01_00:
  "Open (Inr (Inr [''BINARY'', ''AMERICAN'', ''120100''])) =
     Inr \<lparr>collate = ''BINARY'', ctype = ''AMERICAN'', version = ''12.01.00''\<rparr> \<and>
   Open (Inr (Inr [''BINARY'', ''AMERICAN'', ''190000''])) =
     Inr \<lparr>collate = ''BINARY'', ctype = ''AMERICAN'', version = ''19.00.00''\<rparr> \<and>
   Open (Inr (Inr [''BINARY'', ''AMERICAN'', ''101010''])) =
     Inl (ErrUnsupportedVersion ''10.10.10'') \<and>
   Open (Inr (Inr [''BINARY'', ''AMERICAN'', ''090200''])) =
     Inr \<lparr>collate = ''BINARY'', ctype = ''AMERICAN'', version = ''09.02.00''\<rparr>"
  by (simp add: Open_version_gate two_digits_def is_digit_def)

section \<open>Properties of the default expression classifier\<close>

lemmas std_defs = std_helpers_def std_IsLiteralBool_def std_IsLiteralNumber_def std_IsQuoted_def
  std_ValidString_def is_digit_def

lemma Index_Some:
  "Index x s = Some i \<Longrightarrow> x = take i x @ s @ drop (i + length s) x"
proof (induction x arbitrary: i)
  case Nil
  then show ?case by (simp split: if_splits)
next
  case (Cons c cs)
  show ?case
  proof (cases "HasPrefix (c # cs) s")
    case True
    then have "i = 0" using Cons.prems by simp
    with True show ?thesis by (simp add: HasPrefix_def) (metis append_take_drop_id)
  next
    case False
    then obtain j where j: "Index cs s = Some j" "i = Suc j" using Cons.prems by auto
    from Cons.IH [OF j(1)] j(2) show ?thesis by simp
  qed
qed

lemma canConvert_cases:
  assumes "Index x (''::'' @ raw_name t) = Some i" "IsQuoted h (take i x)" "2 \<le> i"
  shows "canConvert h t x =
    Inr (if boolean_variant (ct_Type t) then
           (if IsLiteralBool h (take (i - 2) (drop 1 x)) then Some (take (i - 2) (drop 1 x)) else None)
         else if numeric_variant (ct_Type t) then
           (if IsLiteralNumber h (take (i - 2) (drop 1 x)) then Some (take (i - 2) (drop 1 x)) else None)
         else if quoted_variant (ct_Type t) then Some (take i x)
         else None)"
  using assms by (cases "ct_Type t") (simp_all add: canConvert_def Let_def)

lemma canConvert_none:
  "Index x (''::'' @ raw_name t) = None \<Longrightarrow> canConvert h t x = Inr None"
  "Index x (''::'' @ raw_name t) = Some i \<Longrightarrow> \<not> IsQuoted h (take i x) \<Longrightarrow> canConvert h t x = Inr None"
  by (simp_all add: canConvert_def Let_def)

lemma variant_excl:
  "\<not> (boolean_variant ty \<and> numeric_variant ty)"
  "\<not> (boolean_variant ty \<and> quoted_variant ty)"
  "\<not> (numeric_variant ty \<and> quoted_variant ty)"
  by (cases ty; simp)+

text \<open>
  Claim C7 (as amended). For every column, raw default text and helper functions: a text
  that is a boolean literal, a numeric literal or a quoted text is a Literal of that text.
  Otherwise, when the first occurrence of \<open>::\<close> followed by the raw type name of the column
  (the name \<open>T\<close> of an array type) is at position \<open>i\<close> and the text before it is a quoted
  text (of at least two bytes, so that it has an inner text), the default is: for a
  boolean column a Literal of the inner text, without the quotes, when that is a boolean
  literal; for a decimal, integer or float column a Literal of the inner text, without the
  quotes, when that is a numeric literal; for an array, binary, JSON, network, spatial,
  string, time, UUID or XML column a Literal of the quoted text; whatever follows the type
  name is ignored. In every other case (also for the other variants) it is a RawExpr of
  the whole text, and a RawExpr always holds the text given.
\<close>

theorem defaultExpr_classify:
  "(IsLiteralBool h x \<or> IsLiteralNumber h x \<or> IsQuoted h x \<longrightarrow>
      defaultExpr h c x = Inr (Literal x)) \<and>
   (\<not> IsLiteralBool h x \<and> \<not> IsLiteralNumber h x \<and> \<not> IsQuoted h x \<and>
    Index x (''::'' @ raw_name (c_Type c)) = Some i \<and> IsQuoted h (take i x) \<and> 2 \<le> i \<longrightarrow>
      x = take i x @ ''::'' @ raw_name (c_Type c) @ drop (i + 2 + length (raw_name (c_Type c))) x \<and>
      (boolean_variant (ct_Type (c_Type c)) \<longrightarrow>
         defaultExpr h c x =
           Inr (if IsLiteralBool h (take (i - 2) (drop 1 x))
                then Literal (take (i - 2) (drop 1 x)) else RawExpr x)) \<and>
      (numeric_variant (ct_Type (c_Type c)) \<longrightarrow>
         defaultExpr h c x =
           Inr (if IsLiteralNumber h (take (i - 2) (drop 1 x))
                then Literal (take (i - 2) (drop 1 x)) else RawExpr x)) \<and>
      (quoted_variant (ct_Type (c_Type c)) \<longrightarrow> defaultExpr h c x = Inr (Literal (take i x))) \<and>
      (\<not> boolean_variant (ct_Type (c_Type c)) \<and> \<not> numeric_variant (ct_Type (c_Type c)) \<and>
       \<not> quoted_variant (ct_Type (c_Type c)) \<longrightarrow> defaultExpr h c x = Inr (RawExpr x))) \<and>
   (\<not> IsLiteralBool h x \<and> \<not> IsLiteralNumber h x \<and> \<not> IsQuoted h x \<and>
    (Index x (''::'' @ raw_name (c_Type c)) = None \<or>
     Index x (''::'' @ raw_name (c_Type c)) = Some i \<and> \<not> IsQuoted h (take i x)) \<longrightarrow>
      defaultExpr h c x = Inr (RawExpr x)) \<and>
   (defaultExpr h c x = Inr (RawExpr y) \<longrightarrow> y = x)"
proof -
  let ?ty = "ct_Type (c_Type c)"
  let ?r = "raw_name (c_Type c)"
  let ?inner = "take (i - 2) (drop 1 x)"
  have a: "IsLiteralBool h x \<or> IsLiteralNumber h x \<or> IsQuoted h x \<longrightarrow>
      defaultExpr h c x = Inr (Literal x)"
    by (simp add: defaultExpr_def)
  have d: "defaultExpr h c x = Inr (RawExpr y) \<longrightarrow> y = x"
    by (auto simp: defaultExpr_def split: if_splits sum.splits option.splits)
  {
    assume n: "\<not> IsLiteralBool h x \<and> \<not> IsLiteralNumber h x \<and> \<not> IsQuoted h x"
    then have c: "defaultExpr h c x =
      (case canConvert h (c_Type c) x of Inl e \<Rightarrow> Inl e | Inr (Some v) \<Rightarrow> Inr (Literal v)
       | Inr None \<Rightarrow> Inr (RawExpr x))"
      by (simp add: defaultExpr_def)
    {
      assume m: "Index x (''::'' @ ?r) = Some i" "IsQuoted h (take i x)" "2 \<le> i"
      note cc = canConvert_cases [OF m]
      have 1: "x = take i x @ ''::'' @ ?r @ drop (i + 2 + length ?r) x"
        using Index_Some [OF m(1)] by (simp add: add.assoc)
      have 2: "boolean_variant ?ty \<longrightarrow> defaultExpr h c x =
           Inr (if IsLiteralBool h ?inner then Literal ?inner else RawExpr x)"
        unfolding c cc by simp
      have 3: "numeric_variant ?ty \<longrightarrow> defaultExpr h c x =
           Inr (if IsLiteralNumber h ?inner then Literal ?inner else RawExpr x)"
        unfolding c cc using variant_excl [of ?ty] by auto
      have 4: "quoted_variant ?ty \<longrightarrow> defaultExpr h c x = Inr (Literal (take i x))"
        unfolding c cc using variant_excl [of ?ty] by auto
      have 5: "\<not> boolean_variant ?ty \<and> \<not> numeric_variant ?ty \<and> \<not> quoted_variant ?ty \<longrightarrow>
          defaultExpr h c x = Inr (RawExpr x)"
        unfolding c cc by simp
      note 1 2 3 4 5
    }
    note b = this
    have e: "Index x (''::'' @ ?r) = None \<or>
        Index x (''::'' @ ?r) = Some i \<and> \<not> IsQuoted h (take i x) \<longrightarrow>
        defaultExpr h c x = Inr (RawExpr x)"
      unfolding c using canConvert_none(1) [where x = x and t = "c_Type c" and h = h]
        canConvert_none(2) [where x = x and t = "c_Type c" and i = i and h = h]
      by auto
    note b e
  }
  note main = this
  show ?thesis
    apply (intro conjI impI)
    subgoal using a by blast
    subgoal using main(1) by blast
    subgoal using main(2) by blast
    subgoal using main(3) by blast
    subgoal using main(4) by blast
    subgoal using main(5) by blast
    subgoal using main(6) by blast
    subgoal using d by blast
    done
qed

text \<open>The examples of the specification, with the helper instance: a date cast on a Time
  column is the Literal of the quoted date, and \<open>now()\<close> is kept as a raw expression.\<close>

theorem defaultExpr_classify_witness:
  "defaultExpr std_helpers (column_of_type (TimeType ''date'') ''date'')
     (CHR 0x27 # ''2021-01-01'' @ CHR 0x27 # ''::date'') =
     Inr (Literal (CHR 0x27 # ''2021-01-01'' @ [CHR 0x27])) \<and>
   defaultExpr std_helpers (column_of_type (TimeType ''date'') ''date'') ''now()'' =
     Inr (RawExpr ''now()'') \<and>
   defaultExpr std_helpers (column_of_type (IntegerType ''int'') ''int'') ''42'' =
     Inr (Literal ''42'') \<and>
   defaultExpr std_helpers (column_of_type (BoolType ''bool'') ''bool'')
     (CHR 0x27 # ''true'' @ CHR 0x27 # ''::bool'') = Inr (Literal ''true'')"
  using
    defaultExpr_classify [where h = std_helpers
      and c = "column_of_type (TimeType ''date'') ''date''"
      and x = "CHR 0x27 # ''2021-01-01'' @ CHR 0x27 # ''::date''" and i = 12]
    defaultExpr_classify [where h = std_helpers
      and c = "column_of_type (TimeType ''date'') ''date''" and x = "''now()''" and i = 0]
    defaultExpr_classify [where h = std_helpers
      and c = "column_of_type (IntegerType ''int'') ''int''" and x = "''42''" and i = 0]
    defaultExpr_classify [where h = std_helpers
      and c = "column_of_type (BoolType ''bool'') ''bool''"
      and x = "CHR 0x27 # ''true'' @ CHR 0x27 # ''::bool''" and i = 6]
  by (simp add: std_defs column_of_type_def raw_name_def HasPrefix_def)

text \<open>
  Claim C7 as stated fails: for a numeric column the Literal made from a cast carries the
  inner text without the quotes, not the quoted text.
\<close>

theorem defaultExpr_numeric_cast:
  "defaultExpr std_helpers (column_of_type (DecimalType ''number'' 10 0) ''number'')
     (CHR 0x27 # ''1'' @ CHR 0x27 # ''::number'') = Inr (Literal ''1'') \<and>
   defaultExpr std_helpers (column_of_type (DecimalType ''number'' 10 0) ''number'')
     (CHR 0x27 # ''1'' @ CHR 0x27 # ''::number'') \<noteq> Inr (Literal [CHR 0x27, CHR ''1'', CHR 0x27])"
  by (simp add: defaultExpr_def canConvert_def std_defs column_of_type_def raw_name_def
      HasPrefix_def)

text \<open>The cast is matched at the first occurrence of the type name only, and as a prefix:
  text after the type name is ignored, and a quoted text that itself contains the cast is
  not unwrapped.\<close>

lemma defaultExpr_cast_edges:
  "defaultExpr std_helpers (column_of_type (TimeType ''date'') ''date'')
     (CHR 0x27 # ''abc'' @ CHR 0x27 # ''::dateXYZ'') =
     Inr (Literal (CHR 0x27 # ''abc'' @ [CHR 0x27])) \<and>
   defaultExpr std_helpers (column_of_type (TimeType ''date'') ''date'')
     (CHR 0x27 # ''a::date b'' @ CHR 0x27 # ''::date'') =
     Inr (RawExpr (CHR 0x27 # ''a::date b'' @ CHR 0x27 # ''::date''))"
  by (simp add: defaultExpr_def canConvert_def std_defs column_of_type_def raw_name_def
      HasPrefix_def)

section \<open>Properties of the inspector\<close>

lemmas sample_defs = sample_db_def rows_of_def restrict_names_def sample_column_row_def
  sample_index_row_def sample_check_row_def

lemmas inspect_defs = InspectSchema_def InspectTable_def inspectTable_def table_lookup_def
  link_top_def schema_arg_def ScanOne_def ScanStrings_def tableNames_def schemas_def columns_def indexes_def
  fks_def checks_def realm_attrs_def

subsection \<open>Not-found errors\<close>




lemma inspectTable_q_schemas [simp]:
  "inspectTable (i\<lparr>q_schemas := f\<rparr>) name opts top_s = inspectTable i name opts top_s"
proof -
  have "table_lookup (i\<lparr>q_schemas := f\<rparr>) name opts = table_lookup i name opts"
    by (simp add: table_lookup_def cong: sum.case_cong prod.case_cong option.case_cong)
  moreover have "\<And>t. columns (i\<lparr>q_schemas := f\<rparr>) t = columns i t"
    by (simp add: columns_def cong: sum.case_cong prod.case_cong option.case_cong)
  moreover have "\<And>t. indexes (i\<lparr>q_schemas := f\<rparr>) t = indexes i t"
    by (simp add: indexes_def cong: sum.case_cong prod.case_cong option.case_cong)
  moreover have "\<And>t. fks (i\<lparr>q_schemas := f\<rparr>) t = fks i t"
    by (simp add: fks_def cong: sum.case_cong prod.case_cong option.case_cong)
  moreover have "\<And>t. checks (i\<lparr>q_schemas := f\<rparr>) t = checks i t"
    by (simp add: checks_def cong: sum.case_cong prod.case_cong option.case_cong)
  ultimately show ?thesis by (simp add: inspectTable_def cong: sum.case_cong)
qed

lemma inspectTables_q_schemas [simp]:
  "inspectTables (i\<lparr>q_schemas := f\<rparr>) s names = inspectTables i s names"
  by (induction names arbitrary: s) (simp_all split: sum.splits)





subsection \<open>References to missing columns\<close>


lemma names_backref:
  "map c_Name (cs[ci := (cs ! ci)\<lparr>c_Indexes := v\<rparr>]) = map c_Name cs"
proof (cases "ci < length cs")
  case True
  then show ?thesis by (simp add: map_update list_update_same_conv)
next
  case False
  then show ?thesis by (simp add: list_update_beyond)
qed

lemma add_backref_names [simp]:
  "map c_Name (t_Columns (add_backref ci k t)) = map c_Name (t_Columns t)"
  by (simp add: add_backref_def names_backref)

lemma append_part_columns [simp]: "t_Columns (append_part k p t) = t_Columns t"
  by (simp add: append_part_def)








lemma inspectTables_s_Name:
  "inspectTables i s names = Inr s' \<Longrightarrow> s_Name s' = s_Name s"
  by (induction names arbitrary: s) (auto split: sum.splits)







lemmas row_defs = with_index_rows_def with_check_rows_def sample_table_def sample_defs

lemma sample_table_columns:
  "table_lookup sample_db ''EMP'' (Some ''HR'') = Inr (sample_table\<lparr>t_Columns := []\<rparr>)"
  "columns sample_db (sample_table\<lparr>t_Columns := []\<rparr>) = Inr sample_table"
  by (simp_all add: inspect_defs row_defs std_defs addColumn_def columnType_def ToLower_def
      lower_char_def String_of_def Int64_of_def)





end
